theory Spec2Isabelle
  imports Main "HOL-Library.Word" "HOL-Library.State_Monad"
begin

unbundle bit_operations_syntax

section \<open>DawnCaps: the Dawn/WebGPU capability table of Graphite\<close>

text \<open>
  A shallow embedding of \<^verbatim>\<open>src/gpu/graphite/dawn/DawnCaps.cpp\<close>, in its native
  configuration (\<^verbatim>\<open>__EMSCRIPTEN__\<close> and \<^verbatim>\<open>GRAPHITE_TEST_UTILS\<close> not defined).

  Conventions.
  \<^item> \<^verbatim>\<open>uint32_t\<close> and \<^verbatim>\<open>uint64_t\<close> are \<open>32 word\<close> and \<open>64 word\<close>: \<open>+\<close> and
    \<open>push_bit\<close> wrap as the C++ operators do. An \<^verbatim>\<open>int32_t\<close> is a \<open>32 word\<close> read
    with \<open>sint\<close>.
  \<^item> \<^verbatim>\<open>wgpu::TextureFormat\<close> and \<^verbatim>\<open>wgpu::TextureUsage\<close> are enumerations whose
    values the file converts with \<^verbatim>\<open>static_cast<uint32_t>\<close>, packs into keys and
    combines with \<^verbatim>\<open>|\<close> and \<^verbatim>\<open>&\<close>: a format and a usage are their 32-bit values,
    a \<open>32 word\<close>, and the cast is the identity. Enumerations that the file only
    compares are datatypes, with one constructor for the enumerators the file never
    names.
  \<^item> The file is compiled against headers that are not among the sources (Dawn's
    \<^verbatim>\<open>webgpu_cpp.h\<close>, \<^verbatim>\<open>DawnCaps.h\<close>, \<^verbatim>\<open>Caps.h\<close>, \<^verbatim>\<open>DawnTypes.h\<close>,
    \<^verbatim>\<open>ResourceTypes.h\<close>). Every enumerator value, flag constant, inline helper and
    default value taken from them is a field of the record \<open>decls\<close>, which the
    functions that use one take as their first argument; no theorem depends on a
    particular value.
  \<^item> \<^verbatim>\<open>SkASSERT\<close> and \<^verbatim>\<open>SkDEBUGFAILF\<close> are debug-build diagnostics. The model
    computes what the statements around them compute, and states the asserted
    conditions as separate predicates.
\<close>

type_synonym u32 = "32 word"
type_synonym u64 = "64 word"
type_synonym TextureFormat = u32
type_synonym TextureUsage = u32

subsection \<open>Enumerations that are only compared\<close>

datatype Mipmapped = Mipmapped_kNo | Mipmapped_kYes

datatype Renderable = Renderable_kNo | Renderable_kYes

datatype Discardable = Discardable_kNo | Discardable_kYes

datatype Protected = Protected_kNo | Protected_kYes

datatype Shareable = Shareable_kNo | Shareable_kYes

datatype SkColorType =
    kUnknown_SkColorType
  | kAlpha_8_SkColorType
  | kRGBA_8888_SkColorType
  | kRGB_888x_SkColorType
  | kBGRA_8888_SkColorType
  | kGray_8_SkColorType
  | kR8_unorm_SkColorType
  | kRGBA_F16_SkColorType
  | kA16_float_SkColorType
  | kR8G8_unorm_SkColorType
  | kRGBA_1010102_SkColorType
  | kR16G16_float_SkColorType
  | kA16_unorm_SkColorType
  | kR16G16_unorm_SkColorType
  | SkColorType_other nat

datatype SkTextureCompressionType =
    kETC2_RGB8_UNORM
  | kBC1_RGBA8_UNORM
  | SkTextureCompressionType_other nat

datatype TextureAspect = Plane0Only | Plane1Only | Plane2Only | TextureAspect_other nat

text \<open>\<^verbatim>\<open>skgpu::graphite::LoadOp\<close> (of an attachment) and \<^verbatim>\<open>wgpu::LoadOp\<close>.\<close>

datatype LoadOp = LoadOp_kLoad | LoadOp_other nat

datatype wgpu_LoadOp = ExpandResolveTexture | wgpu_LoadOp_other nat

datatype FeatureName =
    BufferMapExtendedUsages
  | MSAARenderToSingleSampled
  | TransientAttachments
  | DawnLoadResolveTexture
  | DualSourceBlending
  | FramebufferFetch
  | R8UnormStorage
  | Unorm16TextureFormats
  | TextureCompressionETC2
  | TextureCompressionBC
  | FeatureName_other nat

datatype BackendType = D3D11 | BackendType_other nat

datatype Layout = kStd140 | kStd430 | Layout_other nat

subsection \<open>Records of the data model\<close>

text \<open>
  \<^verbatim>\<open>DawnTextureInfo\<close>; \<^verbatim>\<open>DawnTextureSpec\<close> is the same record, since the file reads
  the same four fields and \<^verbatim>\<open>getViewFormat()\<close> of both.
\<close>

record DawnTextureInfo =
  fSampleCount :: u32
  fMipmapped :: Mipmapped
  fFormat :: TextureFormat
  fViewFormat :: TextureFormat
  fUsage :: TextureUsage
  fAspect :: TextureAspect

type_synonym DawnTextureSpec = DawnTextureInfo

text \<open>
  \<^verbatim>\<open>TextureInfo\<close> as this file builds it: \<^verbatim>\<open>return {}\<close> gives the default, invalid
  value, and returning a \<^verbatim>\<open>DawnTextureInfo\<close> converts it to a valid one.
\<close>

datatype TextureInfo = TextureInfo_empty | TextureInfo_Dawn DawnTextureInfo

text \<open>\<^verbatim>\<open>skgpu::Swizzle\<close>, as this file constructs it: from a string, or by \<^verbatim>\<open>RGB1()\<close>.\<close>

datatype Swizzle = Swizzle string | RGB1

record ColorTypeInfo =
  ct_fColorType :: SkColorType
  ct_fFlags :: u32
  fReadSwizzle :: Swizzle
  fWriteSwizzle :: Swizzle

record FormatInfo =
  fFlags :: u32
  fColorTypeInfoCount :: int
  fColorTypeInfos :: "ColorTypeInfo list"

record SkISize =
  fWidth :: u32
  fHeight :: u32

record AttachmentDesc =
  fTextureInfo :: TextureInfo
  fLoadOp :: LoadOp

text \<open>
  \<^verbatim>\<open>RenderPassDesc\<close>; \<open>fWriteSwizzle_asKey\<close> is the value of
  \<^verbatim>\<open>fWriteSwizzle.asKey()\<close>.
\<close>

record RenderPassDesc =
  fColorAttachment :: AttachmentDesc
  fColorResolveAttachment :: AttachmentDesc
  fDepthStencilAttachment :: AttachmentDesc
  fWriteSwizzle_asKey :: u32

text \<open>
  \<^verbatim>\<open>GraphicsPipelineDesc\<close> and \<^verbatim>\<open>ComputePipelineDesc\<close>, as the values of the
  accessors the key builders call.
\<close>

record GraphicsPipelineDesc =
  renderStepID :: u32
  paintParamsID_asUInt :: u32

record ComputePipelineDesc =
  computeStep_uniqueID :: u32

subsection \<open>Declarations taken from headers outside the sources\<close>

record decls =
  \<comment> \<open>\<^verbatim>\<open>wgpu::TextureFormat\<close>\<close>
  Undefined :: TextureFormat
  RGBA8Unorm :: TextureFormat
  R8Unorm :: TextureFormat
  R16Unorm :: TextureFormat
  BGRA8Unorm :: TextureFormat
  RGBA16Float :: TextureFormat
  R16Float :: TextureFormat
  RG8Unorm :: TextureFormat
  RG16Unorm :: TextureFormat
  RGB10A2Unorm :: TextureFormat
  RG16Float :: TextureFormat
  Stencil8 :: TextureFormat
  Depth16Unorm :: TextureFormat
  Depth32Float :: TextureFormat
  Depth24PlusStencil8 :: TextureFormat
  BC1RGBAUnorm :: TextureFormat
  ETC2RGB8Unorm :: TextureFormat
  External :: TextureFormat
  R8BG8Biplanar420Unorm :: TextureFormat
  R10X6BG10X6Biplanar420Unorm :: TextureFormat
  R8BG8A8Triplanar420Unorm :: TextureFormat
  \<comment> \<open>\<^verbatim>\<open>wgpu::TextureUsage\<close>\<close>
  TextureUsage_None :: TextureUsage
  CopySrc :: TextureUsage
  CopyDst :: TextureUsage
  TextureBinding :: TextureUsage
  StorageBinding :: TextureUsage
  RenderAttachment :: TextureUsage
  TransientAttachment :: TextureUsage
  \<comment> \<open>\<^verbatim>\<open>DawnCaps::FormatInfo\<close> flags\<close>
  kTexturable_Flag :: u32
  kRenderable_Flag :: u32
  kMSAA_Flag :: u32
  kStorage_Flag :: u32
  kAllFlags :: u32
  \<comment> \<open>\<^verbatim>\<open>Caps::ColorTypeInfo\<close> flags\<close>
  ct_kUploadData_Flag :: u32
  ct_kRenderable_Flag :: u32
  \<comment> \<open>inline helpers and default-constructed values\<close>
  getViewFormat :: "DawnTextureInfo \<Rightarrow> TextureFormat"
  SamplesToKey :: "u32 \<Rightarrow> u32"
  DawnDepthStencilFlagsToFormat :: "u32 \<Rightarrow> TextureFormat"
  default_DawnTextureInfo :: DawnTextureInfo
  default_ColorTypeInfo :: ColorTypeInfo
  default_FormatInfo :: FormatInfo

subsection \<open>The format list and its index\<close>

definition kFormats :: "decls \<Rightarrow> TextureFormat list" where
  "kFormats D =
     [RGBA8Unorm D,
      R8Unorm D,
      R16Unorm D,
      BGRA8Unorm D,
      RGBA16Float D,
      R16Float D,
      RG8Unorm D,
      RG16Unorm D,
      RGB10A2Unorm D,
      RG16Float D,
      Stencil8 D,
      Depth16Unorm D,
      Depth32Float D,
      Depth24PlusStencil8 D,
      BC1RGBAUnorm D,
      ETC2RGB8Unorm D,
      External D,
      Undefined D]"

text \<open>
  \<^verbatim>\<open>kFormatCnt\<close> is declared in \<^verbatim>\<open>DawnCaps.h\<close>. The array \<^verbatim>\<open>kFormats\<close> is declared
  with that size and \<^verbatim>\<open>setColorType\<close> asserts statically that
  \<^verbatim>\<open>std::size(kFormats) == kFormatCnt\<close>; the constant is taken to be the number of
  initialisers of \<^verbatim>\<open>kFormats\<close> in the native configuration.
\<close>

definition kFormatCnt :: nat where
  "kFormatCnt = 18"

text \<open>
  The three ways out of \<^verbatim>\<open>GetFormatIndex\<close>: the first \<^verbatim>\<open>return i\<close> (the format
  is at index \<open>i\<close>), the second \<^verbatim>\<open>return i\<close> after \<^verbatim>\<open>SkDEBUGFAILF\<close> (the scan
  met the sentinel at index \<open>i\<close>), and the end of the loop (\<^verbatim>\<open>SkUNREACHABLE\<close>).
\<close>

datatype FormatIndex = Found nat | Unsupported nat | Unreachable

fun GetFormatIndex_loop :: "decls \<Rightarrow> TextureFormat list \<Rightarrow> nat \<Rightarrow> TextureFormat \<Rightarrow> FormatIndex" where
  "GetFormatIndex_loop D [] i format = Unreachable"
| "GetFormatIndex_loop D (k # ks) i format =
     (if format = k then Found i
      else if k = Undefined D then Unsupported i
      else GetFormatIndex_loop D ks (Suc i) format)"

definition GetFormatIndex :: "decls \<Rightarrow> TextureFormat \<Rightarrow> FormatIndex" where
  "GetFormatIndex D format = GetFormatIndex_loop D (kFormats D) 0 format"

text \<open>The \<^verbatim>\<open>size_t\<close> that is returned; \<^verbatim>\<open>return 0\<close> follows \<^verbatim>\<open>SkUNREACHABLE\<close>.\<close>

fun index_of :: "FormatIndex \<Rightarrow> nat" where
  "index_of (Found i) = i"
| "index_of (Unsupported i) = i"
| "index_of Unreachable = 0"

subsection \<open>The capability state\<close>

text \<open>
  The members of \<^verbatim>\<open>DawnCaps\<close> (its own and those inherited from \<^verbatim>\<open>Caps\<close>) that
  this file writes or reads, with the four members of \<^verbatim>\<open>SkSL::ShaderCaps\<close> that
  \<^verbatim>\<open>initShaderCaps\<close> writes.
\<close>

record DawnCaps =
  fFormatTable :: "FormatInfo list"
  fColorTypeToFormatTable :: "SkColorType \<Rightarrow> TextureFormat"
  fMaxTextureSize :: u32
  fRequiredTransferBufferAlignment :: nat
  fRequiredUniformBufferAlignment :: nat
  fRequiredStorageBufferAlignment :: nat
  fTextureDataRowBytesAlignment :: nat
  fUniformBufferLayout :: Layout
  fStorageBufferLayout :: Layout
  fSeparateTextureAndSamplerBinding :: bool
  fStorageBufferSupport :: bool
  fStorageBufferPreferred :: bool
  fDrawBufferCanBeMapped :: bool
  fComputeSupport :: bool
  fClampToBorderSupport :: bool
  fBufferMapsAreAsync :: bool
  fMSAARenderToSingleSampledSupport :: bool
  fSupportedTransientAttachmentUsage :: TextureUsage
  fSupportedResolveTextureLoadOp :: "wgpu_LoadOp option"
  fAllowCpuSync :: bool
  fUseAsyncPipelineCreation :: bool
  fAllowScopedErrorChecks :: bool
  fFullCompressedUploadSizeMustAlignToBlockDims :: bool
  fDefaultMSAASamples :: u32
  fInfinitySupport :: bool
  fShaderDerivativeSupport :: bool
  fDualSourceBlendingSupport :: bool
  fFBFetchSupport :: bool

text \<open>
  Modelled from the spec: \<^verbatim>\<open>DawnCaps::getFormatInfo\<close>, declared in \<^verbatim>\<open>DawnCaps.h\<close>.
  The format table maps a native format to its \<^verbatim>\<open>FormatInfo\<close> record; the entry
  of a format is the one at \<^verbatim>\<open>GetFormatIndex\<close> of the format, as in
  \<^verbatim>\<open>initFormatTable\<close>.
\<close>

definition getFormatInfo :: "decls \<Rightarrow> DawnCaps \<Rightarrow> TextureFormat \<Rightarrow> FormatInfo" where
  "getFormatInfo D caps format = fFormatTable caps ! index_of (GetFormatIndex D format)"

text \<open>
  Modelled from the spec: \<^verbatim>\<open>DawnCaps::getFormatFromColorType\<close>, declared in
  \<^verbatim>\<open>DawnCaps.h\<close>: the color-type-to-format lookup. The table is an array indexed by
  \<^verbatim>\<open>static_cast<int>(colorType)\<close>, here a function of the color type.
\<close>

definition getFormatFromColorType :: "DawnCaps \<Rightarrow> SkColorType \<Rightarrow> TextureFormat" where
  "getFormatFromColorType caps colorType = fColorTypeToFormatTable caps colorType"

text \<open>
  Modelled from the spec: \<^verbatim>\<open>DawnCaps::resolveTextureLoadOp\<close>, declared in
  \<^verbatim>\<open>DawnCaps.h\<close>: the optional load op that \<^verbatim>\<open>initCaps\<close> stores.
\<close>

definition resolveTextureLoadOp :: "DawnCaps \<Rightarrow> wgpu_LoadOp option" where
  "resolveTextureLoadOp caps = fSupportedResolveTextureLoadOp caps"

subsection \<open>Accessors of \<^verbatim>\<open>TextureInfo\<close>\<close>

text \<open>
  \<^verbatim>\<open>dawnTextureSpec()\<close> asserts that the info is a valid Dawn one; a call on
  another info is the error \<open>InvalidTextureInfo\<close>. \<^verbatim>\<open>numSamples()\<close> and
  \<^verbatim>\<open>mipmapped()\<close> of an info built from a \<^verbatim>\<open>DawnTextureInfo\<close> are its
  \<open>fSampleCount\<close> and \<open>fMipmapped\<close>.
\<close>

datatype error = InvalidTextureInfo

fun isValid :: "TextureInfo \<Rightarrow> bool" where
  "isValid TextureInfo_empty = False"
| "isValid (TextureInfo_Dawn i) = True"

fun dawnTextureSpec :: "TextureInfo \<Rightarrow> error + DawnTextureSpec" where
  "dawnTextureSpec TextureInfo_empty = Inl InvalidTextureInfo"
| "dawnTextureSpec (TextureInfo_Dawn i) = Inr i"

text \<open>\<^verbatim>\<open>getDawnTextureInfo(&info)\<close>: \<open>None\<close> is \<^verbatim>\<open>false\<close>, with \<^verbatim>\<open>info\<close> untouched.\<close>

fun getDawnTextureInfo :: "TextureInfo \<Rightarrow> DawnTextureInfo option" where
  "getDawnTextureInfo TextureInfo_empty = None"
| "getDawnTextureInfo (TextureInfo_Dawn i) = Some i"

subsection \<open>Queries\<close>

definition isTexturable :: "decls \<Rightarrow> DawnCaps \<Rightarrow> TextureFormat \<Rightarrow> bool" where
  "isTexturable D caps format =
     (let formatInfo = getFormatInfo D caps format
      in kTexturable_Flag D AND fFlags formatInfo \<noteq> 0)"

fun onIsTexturable :: "decls \<Rightarrow> DawnCaps \<Rightarrow> TextureInfo \<Rightarrow> bool" where
  "onIsTexturable D caps TextureInfo_empty = False"
| "onIsTexturable D caps (TextureInfo_Dawn spec) =
     (if fUsage spec AND TextureBinding D = 0 then False
      else if fFormat spec = R8BG8Biplanar420Unorm D then
        (if fAspect spec = Plane0Only \<and> getViewFormat D spec \<noteq> R8Unorm D then False
         else if fAspect spec = Plane1Only \<and> getViewFormat D spec \<noteq> RG8Unorm D then False
         else isTexturable D caps (getViewFormat D spec))
      else if fFormat spec = R10X6BG10X6Biplanar420Unorm D then
        (if fAspect spec = Plane0Only \<and> getViewFormat D spec \<noteq> R16Unorm D then False
         else if fAspect spec = Plane1Only \<and> getViewFormat D spec \<noteq> RG16Unorm D then False
         else isTexturable D caps (getViewFormat D spec))
      else if fFormat spec = R8BG8A8Triplanar420Unorm D then
        (if fAspect spec = Plane0Only \<and> getViewFormat D spec \<noteq> R8Unorm D then False
         else if fAspect spec = Plane1Only \<and> getViewFormat D spec \<noteq> RG8Unorm D then False
         else if fAspect spec = Plane2Only \<and> getViewFormat D spec \<noteq> R8Unorm D then False
         else isTexturable D caps (getViewFormat D spec))
      else isTexturable D caps (getViewFormat D spec))"

definition maxRenderTargetSampleCount :: "decls \<Rightarrow> DawnCaps \<Rightarrow> TextureFormat \<Rightarrow> u32" where
  "maxRenderTargetSampleCount D caps format =
     (let formatInfo = getFormatInfo D caps format
      in if fFlags formatInfo AND kRenderable_Flag D = 0 then 0
         else if fFlags formatInfo AND kMSAA_Flag D \<noteq> 0 then 8
         else 1)"

text \<open>The overload \<^verbatim>\<open>isRenderable(wgpu::TextureFormat, uint32_t)\<close>.\<close>

definition isRenderable_format :: "decls \<Rightarrow> DawnCaps \<Rightarrow> TextureFormat \<Rightarrow> u32 \<Rightarrow> bool" where
  "isRenderable_format D caps format sampleCount =
     (sampleCount \<le> maxRenderTargetSampleCount D caps format)"

text \<open>The overload \<^verbatim>\<open>isRenderable(const TextureInfo&)\<close>.\<close>

fun isRenderable :: "decls \<Rightarrow> DawnCaps \<Rightarrow> TextureInfo \<Rightarrow> bool" where
  "isRenderable D caps TextureInfo_empty = False"
| "isRenderable D caps (TextureInfo_Dawn spec) =
     (fUsage spec AND RenderAttachment D \<noteq> 0 \<and>
      isRenderable_format D caps (getViewFormat D spec) (fSampleCount spec))"

fun isStorage :: "decls \<Rightarrow> DawnCaps \<Rightarrow> TextureInfo \<Rightarrow> bool" where
  "isStorage D caps TextureInfo_empty = False"
| "isStorage D caps (TextureInfo_Dawn spec) =
     (if fUsage spec AND StorageBinding D = 0 then False
      else (let formatInfo = getFormatInfo D caps (getViewFormat D spec)
            in fSampleCount spec = 1 \<and> kStorage_Flag D AND fFlags formatInfo \<noteq> 0))"

text \<open>
  The loop over the first \<open>fColorTypeInfoCount\<close> entries of \<open>fColorTypeInfos\<close>, as
  in \<^verbatim>\<open>getColorTypeInfo\<close>, \<^verbatim>\<open>supportedReadPixelsColorType\<close> and \<^verbatim>\<open>setColorType\<close>:
  the first entry of the color type, if any.
\<close>

fun find_ColorTypeInfo :: "ColorTypeInfo list \<Rightarrow> SkColorType \<Rightarrow> ColorTypeInfo option" where
  "find_ColorTypeInfo [] colorType = None"
| "find_ColorTypeInfo (ctInfo # rest) colorType =
     (if ct_fColorType ctInfo = colorType then Some ctInfo
      else find_ColorTypeInfo rest colorType)"

definition colorTypeInfos :: "FormatInfo \<Rightarrow> ColorTypeInfo list" where
  "colorTypeInfos info = take (nat (fColorTypeInfoCount info)) (fColorTypeInfos info)"

text \<open>\<open>Inr None\<close> is \<^verbatim>\<open>nullptr\<close>.\<close>

definition getColorTypeInfo ::
  "decls \<Rightarrow> DawnCaps \<Rightarrow> SkColorType \<Rightarrow> TextureInfo \<Rightarrow> error + ColorTypeInfo option" where
  "getColorTypeInfo D caps colorType textureInfo =
     (case dawnTextureSpec textureInfo of
        Inl e \<Rightarrow> Inl e
      | Inr spec \<Rightarrow>
          (let dawnFormat = getViewFormat D spec
           in if dawnFormat = Undefined D then Inr None
              else Inr (find_ColorTypeInfo (colorTypeInfos (getFormatInfo D caps dawnFormat)) colorType)))"

definition supportsWritePixels :: "decls \<Rightarrow> DawnCaps \<Rightarrow> TextureInfo \<Rightarrow> error + bool" where
  "supportsWritePixels D caps textureInfo =
     (case dawnTextureSpec textureInfo of
        Inl e \<Rightarrow> Inl e
      | Inr spec \<Rightarrow> Inr (fUsage spec AND CopyDst D \<noteq> 0))"

definition supportsReadPixels :: "decls \<Rightarrow> DawnCaps \<Rightarrow> TextureInfo \<Rightarrow> error + bool" where
  "supportsReadPixels D caps textureInfo =
     (case dawnTextureSpec textureInfo of
        Inl e \<Rightarrow> Inl e
      | Inr spec \<Rightarrow> Inr (fUsage spec AND CopySrc D \<noteq> 0))"

definition supportedWritePixelsColorType ::
  "DawnCaps \<Rightarrow> SkColorType \<Rightarrow> TextureInfo \<Rightarrow> SkColorType \<Rightarrow> SkColorType \<times> bool" where
  "supportedWritePixelsColorType caps dstColorType dstTextureInfo srcColorType =
     (dstColorType, False)"

definition supportedReadPixelsColorType ::
  "decls \<Rightarrow> DawnCaps \<Rightarrow> SkColorType \<Rightarrow> TextureInfo \<Rightarrow> SkColorType \<Rightarrow> SkColorType \<times> bool" where
  "supportedReadPixelsColorType D caps srcColorType srcTextureInfo dstColorType =
     (let dawnFormat = getFormatFromColorType caps srcColorType;
          info = getFormatInfo D caps dawnFormat
      in case find_ColorTypeInfo (colorTypeInfos info) srcColorType of
           Some ctInfo \<Rightarrow> (srcColorType, False)
         | None \<Rightarrow> (kUnknown_SkColorType, False))"

subsection \<open>Default texture descriptors\<close>

definition getDefaultSampledTextureInfo ::
  "decls \<Rightarrow> DawnCaps \<Rightarrow> SkColorType \<Rightarrow> Mipmapped \<Rightarrow> Protected \<Rightarrow> Renderable \<Rightarrow> TextureInfo" where
  "getDefaultSampledTextureInfo D caps colorType mipmapped protected renderable =
     (let usage0 = TextureBinding D OR CopyDst D OR CopySrc D;
          usage = (if renderable = Renderable_kYes then usage0 OR RenderAttachment D else usage0);
          format = getFormatFromColorType caps colorType
      in if format = Undefined D then TextureInfo_empty
         else TextureInfo_Dawn ((default_DawnTextureInfo D)
                \<lparr>fSampleCount := 1,
                 fMipmapped := mipmapped,
                 fFormat := format,
                 fViewFormat := format,
                 fUsage := usage\<rparr>))"

definition getTextureInfoForSampledCopy ::
  "decls \<Rightarrow> DawnCaps \<Rightarrow> TextureInfo \<Rightarrow> Mipmapped \<Rightarrow> TextureInfo" where
  "getTextureInfoForSampledCopy D caps textureInfo mipmapped =
     (case getDawnTextureInfo textureInfo of
        None \<Rightarrow> TextureInfo_empty
      | Some info \<Rightarrow>
          TextureInfo_Dawn (info
            \<lparr>fSampleCount := 1,
             fMipmapped := mipmapped,
             fUsage := TextureBinding D OR CopyDst D OR CopySrc D\<rparr>))"

fun format_from_compression :: "decls \<Rightarrow> SkTextureCompressionType \<Rightarrow> TextureFormat" where
  "format_from_compression D kETC2_RGB8_UNORM = ETC2RGB8Unorm D"
| "format_from_compression D kBC1_RGBA8_UNORM = BC1RGBAUnorm D"
| "format_from_compression D (SkTextureCompressionType_other n) = Undefined D"

definition getDefaultCompressedTextureInfo ::
  "decls \<Rightarrow> DawnCaps \<Rightarrow> SkTextureCompressionType \<Rightarrow> Mipmapped \<Rightarrow> Protected \<Rightarrow> TextureInfo" where
  "getDefaultCompressedTextureInfo D caps compression mipmapped protected =
     (let usage = TextureBinding D OR CopyDst D OR CopySrc D;
          format = format_from_compression D compression
      in if format = Undefined D then TextureInfo_empty
         else TextureInfo_Dawn ((default_DawnTextureInfo D)
                \<lparr>fSampleCount := 1,
                 fMipmapped := mipmapped,
                 fFormat := format,
                 fViewFormat := format,
                 fUsage := usage\<rparr>))"

definition getDefaultMSAATextureInfo ::
  "decls \<Rightarrow> DawnCaps \<Rightarrow> TextureInfo \<Rightarrow> Discardable \<Rightarrow> error + TextureInfo" where
  "getDefaultMSAATextureInfo D caps singleSampledInfo discardable =
     (if fDefaultMSAASamples caps \<le> 1 then Inr TextureInfo_empty
      else case dawnTextureSpec singleSampledInfo of
             Inl e \<Rightarrow> Inl e
           | Inr singleSpec \<Rightarrow>
               (let info = (default_DawnTextureInfo D)
                      \<lparr>fSampleCount := fDefaultMSAASamples caps,
                       fMipmapped := Mipmapped_kNo,
                       fFormat := fFormat singleSpec,
                       fViewFormat := fFormat singleSpec,
                       fUsage := RenderAttachment D\<rparr>
                in if fSupportedTransientAttachmentUsage caps \<noteq> TextureUsage_None D \<and>
                      discardable = Discardable_kYes
                   then Inr (TextureInfo_Dawn
                          (info\<lparr>fUsage := fUsage info OR fSupportedTransientAttachmentUsage caps\<rparr>))
                   else Inr (TextureInfo_Dawn info)))"

text \<open>\<open>depthStencilType\<close> is the mask of an \<^verbatim>\<open>SkEnumBitMask<DepthStencilFlags>\<close>.\<close>

definition getDefaultDepthStencilTextureInfo ::
  "decls \<Rightarrow> DawnCaps \<Rightarrow> u32 \<Rightarrow> u32 \<Rightarrow> Protected \<Rightarrow> TextureInfo" where
  "getDefaultDepthStencilTextureInfo D caps depthStencilType sampleCount protected =
     (let info = (default_DawnTextureInfo D)
            \<lparr>fSampleCount := sampleCount,
             fMipmapped := Mipmapped_kNo,
             fFormat := DawnDepthStencilFlagsToFormat D depthStencilType,
             fViewFormat := DawnDepthStencilFlagsToFormat D depthStencilType,
             fUsage := RenderAttachment D\<rparr>
      in if fSupportedTransientAttachmentUsage caps \<noteq> TextureUsage_None D
         then TextureInfo_Dawn
                (info\<lparr>fUsage := fUsage info OR fSupportedTransientAttachmentUsage caps\<rparr>)
         else TextureInfo_Dawn info)"

definition getDefaultStorageTextureInfo :: "decls \<Rightarrow> DawnCaps \<Rightarrow> SkColorType \<Rightarrow> TextureInfo" where
  "getDefaultStorageTextureInfo D caps colorType =
     (let format = getFormatFromColorType caps colorType
      in if format = Undefined D then TextureInfo_empty
         else (let formatInfo = getFormatInfo D caps format
               in if kStorage_Flag D AND fFlags formatInfo = 0 then TextureInfo_empty
                  else TextureInfo_Dawn ((default_DawnTextureInfo D)
                         \<lparr>fSampleCount := 1,
                          fMipmapped := Mipmapped_kNo,
                          fFormat := format,
                          fViewFormat := format,
                          fUsage := StorageBinding D OR TextureBinding D OR CopySrc D\<rparr>)))"

subsection \<open>Key builders\<close>

text \<open>
  The locals \<^verbatim>\<open>colorInfo\<close> and \<^verbatim>\<open>depthStencilInfo\<close> of
  \<^verbatim>\<open>getRenderPassDescKeyForPipeline\<close>: default-constructed, then overwritten by
  \<^verbatim>\<open>getDawnTextureInfo\<close> when the attachment's info is a valid one.
\<close>

definition attachmentInfo :: "decls \<Rightarrow> AttachmentDesc \<Rightarrow> DawnTextureInfo" where
  "attachmentInfo D attachment =
     (case getDawnTextureInfo (fTextureInfo attachment) of
        None \<Rightarrow> default_DawnTextureInfo D
      | Some info \<Rightarrow> info)"

definition loadResolveAttachmentKey :: "DawnCaps \<Rightarrow> RenderPassDesc \<Rightarrow> u32" where
  "loadResolveAttachmentKey caps renderPassDesc =
     (let shouldIncludeLoadResolveAttachmentBit = (resolveTextureLoadOp caps \<noteq> None)
      in if shouldIncludeLoadResolveAttachmentBit \<and>
            isValid (fTextureInfo (fColorResolveAttachment renderPassDesc)) \<and>
            fLoadOp (fColorResolveAttachment renderPassDesc) = LoadOp_kLoad
         then 1 else 0)"

definition getRenderPassDescKeyForPipeline :: "decls \<Rightarrow> DawnCaps \<Rightarrow> RenderPassDesc \<Rightarrow> u64" where
  "getRenderPassDescKeyForPipeline D caps renderPassDesc =
     (let colorInfo = attachmentInfo D (fColorAttachment renderPassDesc);
          depthStencilInfo = attachmentInfo D (fDepthStencilAttachment renderPassDesc);
          colorAttachmentKey =
            push_bit 16 (getViewFormat D colorInfo) OR
            push_bit 1 (fSampleCount colorInfo) OR
            loadResolveAttachmentKey caps renderPassDesc;
          dsAttachmentKey =
            push_bit 16 (getViewFormat D depthStencilInfo) OR
            fSampleCount depthStencilInfo
      in push_bit 32 (ucast colorAttachmentKey :: u64) OR ucast dsAttachmentKey)"

text \<open>The condition of the \<^verbatim>\<open>SkASSERT\<close> in \<^verbatim>\<open>getRenderPassDescKeyForPipeline\<close>.\<close>

definition renderPassDescKey_asserted :: "decls \<Rightarrow> RenderPassDesc \<Rightarrow> bool" where
  "renderPassDescKey_asserted D renderPassDesc =
     (let colorInfo = attachmentInfo D (fColorAttachment renderPassDesc);
          depthStencilInfo = attachmentInfo D (fDepthStencilAttachment renderPassDesc)
      in getViewFormat D colorInfo \<le> 0xffff \<and>
         getViewFormat D depthStencilInfo \<le> 0xffff \<and>
         fSampleCount colorInfo < 0x7fff)"

text \<open>The five data words that \<^verbatim>\<open>makeGraphicsPipelineKey\<close> stores in the key.\<close>

definition makeGraphicsPipelineKey ::
  "decls \<Rightarrow> DawnCaps \<Rightarrow> GraphicsPipelineDesc \<Rightarrow> RenderPassDesc \<Rightarrow> u32 list" where
  "makeGraphicsPipelineKey D caps pipelineDesc renderPassDesc =
     (let renderPassKey = getRenderPassDescKeyForPipeline D caps renderPassDesc
      in [renderStepID pipelineDesc,
          paintParamsID_asUInt pipelineDesc,
          ucast (renderPassKey AND 0xFFFFFFFF),
          ucast (drop_bit 32 renderPassKey AND 0xFFFFFFFF),
          fWriteSwizzle_asKey renderPassDesc])"

definition makeComputePipelineKey :: "DawnCaps \<Rightarrow> ComputePipelineDesc \<Rightarrow> u32 list" where
  "makeComputePipelineKey caps pipelineDesc = [computeStep_uniqueID pipelineDesc]"

text \<open>
  What \<^verbatim>\<open>buildKeyForTexture\<close> hands to \<^verbatim>\<open>GraphiteResourceKey::Builder\<close>: the
  resource type, the shareable flag and the four data words
  \<^verbatim>\<open>builder[0]\<close> to \<^verbatim>\<open>builder[3]\<close>.
\<close>

record GraphiteResourceKey =
  key_type :: u32
  key_shareable :: Shareable
  key_data :: "u32 list"

definition isMipped :: "DawnTextureInfo \<Rightarrow> u32" where
  "isMipped spec = (if fMipmapped spec = Mipmapped_kYes then 1 else 0)"

definition buildKeyForTexture ::
  "decls \<Rightarrow> DawnCaps \<Rightarrow> SkISize \<Rightarrow> TextureInfo \<Rightarrow> u32 \<Rightarrow> Shareable \<Rightarrow> error + GraphiteResourceKey" where
  "buildKeyForTexture D caps dimensions info type shareable =
     (case dawnTextureSpec info of
        Inl e \<Rightarrow> Inl e
      | Inr dawnSpec \<Rightarrow>
          (let formatKey = getViewFormat D dawnSpec;
               samplesKey = SamplesToKey D (fSampleCount dawnSpec)
           in Inr \<lparr>key_type = type,
                   key_shareable = shareable,
                   key_data =
                     [fWidth dimensions,
                      fHeight dimensions,
                      formatKey,
                      push_bit 0 samplesKey OR
                      push_bit 3 (isMipped dawnSpec) OR
                      push_bit 4 (fUsage dawnSpec)]\<rparr>))"

text \<open>
  The three \<^verbatim>\<open>SkASSERT\<close>s of \<^verbatim>\<open>buildKeyForTexture\<close> on the parts of the fourth
  word: the bit budget.
\<close>

definition keyBudget_asserted :: "decls \<Rightarrow> DawnTextureInfo \<Rightarrow> bool" where
  "keyBudget_asserted D dawnSpec =
     (SamplesToKey D (fSampleCount dawnSpec) < push_bit 3 1 \<and>
      isMipped dawnSpec < push_bit 1 1 \<and>
      fUsage dawnSpec < push_bit 28 1)"

text \<open>The value that \<^verbatim>\<open>buildKeyForTexture\<close> stores in \<^verbatim>\<open>builder[3]\<close>.\<close>

definition fourthWord :: "decls \<Rightarrow> DawnTextureInfo \<Rightarrow> u32" where
  "fourthWord D spec =
     push_bit 0 (SamplesToKey D (fSampleCount spec)) OR
     push_bit 3 (isMipped spec) OR
     push_bit 4 (fUsage spec)"

text \<open>
  The five values that \<^verbatim>\<open>getRenderPassDescKeyForPipeline\<close> packs: the view format
  and sample count of the color attachment, the load-resolve bit, and the view format
  and sample count of the depth-stencil attachment.
\<close>

definition renderPassDescKey_inputs ::
  "decls \<Rightarrow> DawnCaps \<Rightarrow> RenderPassDesc \<Rightarrow> u32 \<times> u32 \<times> u32 \<times> u32 \<times> u32" where
  "renderPassDescKey_inputs D caps renderPassDesc =
     (let colorInfo = attachmentInfo D (fColorAttachment renderPassDesc);
          depthStencilInfo = attachmentInfo D (fDepthStencilAttachment renderPassDesc)
      in (getViewFormat D colorInfo,
          fSampleCount colorInfo,
          loadResolveAttachmentKey caps renderPassDesc,
          getViewFormat D depthStencilInfo,
          fSampleCount depthStencilInfo))"

text \<open>
  The reading of a 64-bit key by bit positions: bits 48 to 63, bits 33 to 47, bit 32,
  bits 16 to 31 and bits 0 to 15.
\<close>

definition decode_renderPassDescKey :: "u64 \<Rightarrow> u32 \<times> u32 \<times> u32 \<times> u32 \<times> u32" where
  "decode_renderPassDescKey key =
     (ucast (drop_bit 48 key),
      ucast (take_bit 15 (drop_bit 33 key)),
      ucast (take_bit 1 (drop_bit 32 key)),
      ucast (take_bit 16 (drop_bit 16 key)),
      ucast (take_bit 16 key))"

subsection \<open>Construction\<close>

text \<open>
  What the constructor reads of the \<^verbatim>\<open>wgpu::Device\<close>: its features, the limit
  \<^verbatim>\<open>maxTextureDimension2D\<close> and the backend type of its adapter. \<open>fTick\<close> is
  whether \<^verbatim>\<open>backendContext.fTick\<close> is set.
\<close>

record Device =
  HasFeature :: "FeatureName \<Rightarrow> bool"
  maxTextureDimension2D :: u32
  backendType :: BackendType

record DawnBackendContext =
  fDevice :: Device
  fTick :: bool

definition initCaps :: "decls \<Rightarrow> DawnBackendContext \<Rightarrow> DawnCaps \<Rightarrow> DawnCaps" where
  "initCaps D backendContext caps =
     (let device = fDevice backendContext;
          caps = caps\<lparr>fMaxTextureSize := maxTextureDimension2D device\<rparr>;
          caps = caps\<lparr>fRequiredTransferBufferAlignment := 4\<rparr>;
          caps = caps\<lparr>fRequiredUniformBufferAlignment := 256\<rparr>;
          caps = caps\<lparr>fRequiredStorageBufferAlignment := fRequiredUniformBufferAlignment caps\<rparr>;
          caps = caps\<lparr>fTextureDataRowBytesAlignment := 256\<rparr>;
          caps = caps\<lparr>fUniformBufferLayout := kStd140\<rparr>;
          caps = caps\<lparr>fStorageBufferLayout := kStd430\<rparr>;
          caps = caps\<lparr>fSeparateTextureAndSamplerBinding := True\<rparr>;
          caps = caps\<lparr>fStorageBufferSupport := (backendType device \<noteq> D3D11)\<rparr>;
          caps = caps\<lparr>fStorageBufferPreferred := (backendType device \<noteq> D3D11)\<rparr>;
          caps = caps\<lparr>fDrawBufferCanBeMapped := False\<rparr>;
          caps = caps\<lparr>fComputeSupport := True\<rparr>;
          caps = caps\<lparr>fClampToBorderSupport := False\<rparr>;
          caps = caps\<lparr>fBufferMapsAreAsync := False\<rparr>;
          caps = caps\<lparr>fDrawBufferCanBeMapped := HasFeature device BufferMapExtendedUsages\<rparr>;
          caps = caps\<lparr>fMSAARenderToSingleSampledSupport :=
                        HasFeature device MSAARenderToSingleSampled\<rparr>;
          caps = (if HasFeature device TransientAttachments
                  then caps\<lparr>fSupportedTransientAttachmentUsage := TransientAttachment D\<rparr>
                  else caps);
          caps = (if HasFeature device DawnLoadResolveTexture
                  then caps\<lparr>fSupportedResolveTextureLoadOp := Some ExpandResolveTexture\<rparr>
                  else caps);
          caps = (if \<not> fTick backendContext
                  then caps\<lparr>fAllowCpuSync := False,
                            fUseAsyncPipelineCreation := False,
                            fAllowScopedErrorChecks := False\<rparr>
                  else caps)
      in caps\<lparr>fFullCompressedUploadSizeMustAlignToBlockDims := True\<rparr>)"

definition initShaderCaps :: "Device \<Rightarrow> DawnCaps \<Rightarrow> DawnCaps" where
  "initShaderCaps device caps =
     (let caps = caps\<lparr>fInfinitySupport := False\<rparr>;
          caps = caps\<lparr>fShaderDerivativeSupport := True\<rparr>;
          caps = (if HasFeature device DualSourceBlending
                  then caps\<lparr>fDualSourceBlendingSupport := True\<rparr> else caps)
      in if HasFeature device FramebufferFetch
         then caps\<lparr>fFBFetchSupport := True\<rparr> else caps)"

text \<open>
  \<^verbatim>\<open>info = &fFormatTable[GetFormatIndex(format)]\<close> followed by assignments to the
  members of \<^verbatim>\<open>*info\<close>: the entry at that index is replaced by its update.
\<close>

definition updFormatInfo ::
  "decls \<Rightarrow> TextureFormat \<Rightarrow> (FormatInfo \<Rightarrow> FormatInfo) \<Rightarrow> DawnCaps \<Rightarrow> DawnCaps" where
  "updFormatInfo D format upd caps =
     (let i = index_of (GetFormatIndex D format)
      in caps\<lparr>fFormatTable := (fFormatTable caps)[i := upd (fFormatTable caps ! i)]\<rparr>)"

text \<open>
  An element of \<^verbatim>\<open>std::make_unique<ColorTypeInfo[]>(n)\<close> after the assignments to
  \<^verbatim>\<open>fColorType\<close> and \<^verbatim>\<open>fFlags\<close>.
\<close>

definition ctInfo :: "decls \<Rightarrow> SkColorType \<Rightarrow> u32 \<Rightarrow> ColorTypeInfo" where
  "ctInfo D colorType flags =
     (default_ColorTypeInfo D)\<lparr>ct_fColorType := colorType, ct_fFlags := flags\<rparr>"

fun setColorType :: "decls \<Rightarrow> SkColorType \<Rightarrow> TextureFormat list \<Rightarrow> DawnCaps \<Rightarrow> DawnCaps" where
  "setColorType D colorType [] caps = caps"
| "setColorType D colorType (format # formats) caps =
     (case find_ColorTypeInfo (colorTypeInfos (getFormatInfo D caps format)) colorType of
        Some info \<Rightarrow>
          caps\<lparr>fColorTypeToFormatTable := (fColorTypeToFormatTable caps)(colorType := format)\<rparr>
      | None \<Rightarrow> setColorType D colorType formats caps)"

text \<open>The first part of \<^verbatim>\<open>initFormatTable\<close>: the entries of the color formats.\<close>

definition initFormatTable_color :: "decls \<Rightarrow> Device \<Rightarrow> DawnCaps \<Rightarrow> DawnCaps" where
  "initFormatTable_color D device caps =
     (let uploadRender = ct_kUploadData_Flag D OR ct_kRenderable_Flag D;
          upload = ct_kUploadData_Flag D;
          caps = updFormatInfo D (RGBA8Unorm D) (\<lambda>info. info
                   \<lparr>fFlags := kAllFlags D,
                    fColorTypeInfoCount := 2,
                    fColorTypeInfos :=
                      [ctInfo D kRGBA_8888_SkColorType uploadRender,
                       (ctInfo D kRGB_888x_SkColorType upload)\<lparr>fReadSwizzle := RGB1\<rparr>]\<rparr>) caps;
          caps = updFormatInfo D (R8Unorm D) (\<lambda>info. info
                   \<lparr>fFlags := (if \<not> HasFeature device R8UnormStorage
                                then kAllFlags D AND NOT (kStorage_Flag D) else kAllFlags D),
                    fColorTypeInfoCount := 3,
                    fColorTypeInfos :=
                      [ctInfo D kR8_unorm_SkColorType uploadRender,
                       (ctInfo D kAlpha_8_SkColorType uploadRender)
                         \<lparr>fReadSwizzle := Swizzle ''000r'', fWriteSwizzle := Swizzle ''a000''\<rparr>,
                       (ctInfo D kGray_8_SkColorType upload)
                         \<lparr>fReadSwizzle := Swizzle ''rrr1''\<rparr>]\<rparr>) caps;
          supportUnorm16 = HasFeature device Unorm16TextureFormats;
          caps = (if supportUnorm16
                  then updFormatInfo D (R16Unorm D) (\<lambda>info. info
                         \<lparr>fFlags := kAllFlags D AND NOT (kStorage_Flag D),
                          fColorTypeInfoCount := 1,
                          fColorTypeInfos :=
                            [(ctInfo D kA16_unorm_SkColorType uploadRender)
                               \<lparr>fReadSwizzle := Swizzle ''000r'',
                                fWriteSwizzle := Swizzle ''a000''\<rparr>]\<rparr>) caps
                  else caps);
          caps = updFormatInfo D (BGRA8Unorm D) (\<lambda>info. info
                   \<lparr>fFlags := kAllFlags D,
                    fColorTypeInfoCount := 2,
                    fColorTypeInfos :=
                      [ctInfo D kBGRA_8888_SkColorType uploadRender,
                       ctInfo D kRGB_888x_SkColorType upload]\<rparr>) caps;
          caps = updFormatInfo D (RGBA16Float D) (\<lambda>info. info
                   \<lparr>fFlags := kAllFlags D,
                    fColorTypeInfoCount := 1,
                    fColorTypeInfos := [ctInfo D kRGBA_F16_SkColorType uploadRender]\<rparr>) caps;
          caps = updFormatInfo D (R16Float D) (\<lambda>info. info
                   \<lparr>fFlags := kAllFlags D,
                    fColorTypeInfoCount := 1,
                    fColorTypeInfos :=
                      [(ctInfo D kA16_float_SkColorType uploadRender)
                         \<lparr>fReadSwizzle := Swizzle ''000r'',
                          fWriteSwizzle := Swizzle ''a000''\<rparr>]\<rparr>) caps;
          caps = updFormatInfo D (RG8Unorm D) (\<lambda>info. info
                   \<lparr>fFlags := kAllFlags D,
                    fColorTypeInfoCount := 1,
                    fColorTypeInfos := [ctInfo D kR8G8_unorm_SkColorType uploadRender]\<rparr>) caps;
          caps = (if supportUnorm16
                  then updFormatInfo D (RG16Unorm D) (\<lambda>info. info
                         \<lparr>fFlags := kAllFlags D,
                          fColorTypeInfoCount := 1,
                          fColorTypeInfos :=
                            [ctInfo D kR16G16_unorm_SkColorType uploadRender]\<rparr>) caps
                  else caps);
          caps = updFormatInfo D (RGB10A2Unorm D) (\<lambda>info. info
                   \<lparr>fFlags := kAllFlags D,
                    fColorTypeInfoCount := 1,
                    fColorTypeInfos := [ctInfo D kRGBA_1010102_SkColorType uploadRender]\<rparr>) caps;
          caps = updFormatInfo D (RG16Float D) (\<lambda>info. info
                   \<lparr>fFlags := kAllFlags D,
                    fColorTypeInfoCount := 1,
                    fColorTypeInfos := [ctInfo D kR16G16_float_SkColorType uploadRender]\<rparr>) caps;
          caps = (if HasFeature device TextureCompressionETC2
                  then updFormatInfo D (ETC2RGB8Unorm D) (\<lambda>info. info
                         \<lparr>fFlags := kTexturable_Flag D,
                          fColorTypeInfoCount := 1,
                          fColorTypeInfos := [ctInfo D kRGB_888x_SkColorType upload]\<rparr>) caps
                  else caps)
      in if HasFeature device TextureCompressionBC
         then updFormatInfo D (BC1RGBAUnorm D) (\<lambda>info. info
                \<lparr>fFlags := kTexturable_Flag D,
                 fColorTypeInfoCount := 1,
                 fColorTypeInfos := [ctInfo D kRGBA_8888_SkColorType upload]\<rparr>) caps
         else caps)"

text \<open>
  The second part: the non-color formats, \<^verbatim>\<open>External\<close> and \<^verbatim>\<open>Undefined\<close>. The
  four depth and stencil entries and the \<^verbatim>\<open>Undefined\<close> entry leave
  \<^verbatim>\<open>fColorTypeInfos\<close> as it is; the one \<^verbatim>\<open>ColorTypeInfo\<close> of \<^verbatim>\<open>External\<close> keeps
  its default flags.
\<close>

definition initFormatTable_other :: "decls \<Rightarrow> DawnCaps \<Rightarrow> DawnCaps" where
  "initFormatTable_other D caps =
     (let caps = updFormatInfo D (Stencil8 D) (\<lambda>info. info
                   \<lparr>fFlags := kMSAA_Flag D, fColorTypeInfoCount := 0\<rparr>) caps;
          caps = updFormatInfo D (Depth16Unorm D) (\<lambda>info. info
                   \<lparr>fFlags := kMSAA_Flag D, fColorTypeInfoCount := 0\<rparr>) caps;
          caps = updFormatInfo D (Depth32Float D) (\<lambda>info. info
                   \<lparr>fFlags := kMSAA_Flag D, fColorTypeInfoCount := 0\<rparr>) caps;
          caps = updFormatInfo D (Depth24PlusStencil8 D) (\<lambda>info. info
                   \<lparr>fFlags := kMSAA_Flag D, fColorTypeInfoCount := 0\<rparr>) caps;
          caps = updFormatInfo D (External D) (\<lambda>info. info
                   \<lparr>fFlags := kTexturable_Flag D,
                    fColorTypeInfoCount := 1,
                    fColorTypeInfos :=
                      [(default_ColorTypeInfo D)
                         \<lparr>ct_fColorType := kRGBA_8888_SkColorType\<rparr>]\<rparr>) caps
      in updFormatInfo D (Undefined D) (\<lambda>info. info
           \<lparr>fFlags := 0, fColorTypeInfoCount := 0\<rparr>) caps)"

text \<open>The third part: the color-type-to-format table.\<close>

definition initFormatTable_colorTypes :: "decls \<Rightarrow> DawnCaps \<Rightarrow> DawnCaps" where
  "initFormatTable_colorTypes D caps =
     (let caps = caps\<lparr>fColorTypeToFormatTable := (\<lambda>colorType. Undefined D)\<rparr>;
          caps = setColorType D kAlpha_8_SkColorType [R8Unorm D] caps;
          caps = setColorType D kRGBA_8888_SkColorType [RGBA8Unorm D] caps;
          caps = setColorType D kRGB_888x_SkColorType [RGBA8Unorm D, BGRA8Unorm D] caps;
          caps = setColorType D kBGRA_8888_SkColorType [BGRA8Unorm D] caps;
          caps = setColorType D kGray_8_SkColorType [R8Unorm D] caps;
          caps = setColorType D kR8_unorm_SkColorType [R8Unorm D] caps;
          caps = setColorType D kRGBA_F16_SkColorType [RGBA16Float D] caps;
          caps = setColorType D kA16_float_SkColorType [R16Float D] caps;
          caps = setColorType D kR8G8_unorm_SkColorType [RG8Unorm D] caps;
          caps = setColorType D kRGBA_1010102_SkColorType [RGB10A2Unorm D] caps;
          caps = setColorType D kR16G16_float_SkColorType [RG16Float D] caps;
          caps = setColorType D kA16_unorm_SkColorType [R16Unorm D] caps
      in setColorType D kR16G16_unorm_SkColorType [RG16Unorm D] caps)"

definition initFormatTable :: "decls \<Rightarrow> Device \<Rightarrow> DawnCaps \<Rightarrow> DawnCaps" where
  "initFormatTable D device caps =
     initFormatTable_colorTypes D (initFormatTable_other D (initFormatTable_color D device caps))"

text \<open>
  The constructor. \<open>base\<close> holds the members as \<^verbatim>\<open>Caps()\<close> and the default member
  initialisers leave them, the format table being an array of \<open>kFormatCnt\<close>
  default-constructed entries; \<open>finishInitialization\<close> is
  \<^verbatim>\<open>Caps::finishInitialization\<close>, defined in \<^verbatim>\<open>Caps.cpp\<close>.
\<close>

definition DawnCaps_new ::
  "decls \<Rightarrow> ('o \<Rightarrow> DawnCaps \<Rightarrow> DawnCaps) \<Rightarrow> DawnCaps \<Rightarrow> DawnBackendContext \<Rightarrow> 'o \<Rightarrow> DawnCaps" where
  "DawnCaps_new D finishInitialization base backendContext options =
     (let caps = base\<lparr>fFormatTable := replicate kFormatCnt (default_FormatInfo D)\<rparr>;
          caps = initCaps D backendContext caps;
          caps = initShaderCaps (fDevice backendContext) caps;
          caps = initFormatTable D (fDevice backendContext) caps
      in finishInitialization options caps)"

subsection \<open>The operations as computations on the object\<close>

text \<open>
  The queries, descriptor factories and key builders are member functions of the
  capability object. To state what they do to the object, each is written once more,
  statement by statement, as a computation on the capability state: in the state monad
  a read of a member of \<^verbatim>\<open>this\<close> is \<open>this_member\<close>, a call of another member function
  is a bind, and an assignment to a member would be a \<open>State_Monad.update\<close> or
  \<open>State_Monad.set\<close>. Locals and the key that \<^verbatim>\<open>buildKeyForTexture\<close> fills through its
  pointer argument are values of the computation, not part of the object.
\<close>

definition this_member :: "(DawnCaps \<Rightarrow> 'a) \<Rightarrow> (DawnCaps, 'a) state" where
  "this_member field = do { caps \<leftarrow> State_Monad.get; State_Monad.return (field caps) }"

text \<open>The three getters of \<^verbatim>\<open>DawnCaps.h\<close>, reading the members they return.\<close>

definition getFormatInfo_op :: "decls \<Rightarrow> TextureFormat \<Rightarrow> (DawnCaps, FormatInfo) state" where
  "getFormatInfo_op D format =
     do { table \<leftarrow> this_member fFormatTable;
          State_Monad.return (table ! index_of (GetFormatIndex D format)) }"

definition getFormatFromColorType_op :: "SkColorType \<Rightarrow> (DawnCaps, TextureFormat) state" where
  "getFormatFromColorType_op colorType =
     do { table \<leftarrow> this_member fColorTypeToFormatTable;
          State_Monad.return (table colorType) }"

definition resolveTextureLoadOp_op :: "(DawnCaps, wgpu_LoadOp option) state" where
  "resolveTextureLoadOp_op = this_member fSupportedResolveTextureLoadOp"

definition isTexturable_op :: "decls \<Rightarrow> TextureFormat \<Rightarrow> (DawnCaps, bool) state" where
  "isTexturable_op D format =
     do { formatInfo \<leftarrow> getFormatInfo_op D format;
          State_Monad.return (kTexturable_Flag D AND fFlags formatInfo \<noteq> 0) }"

fun onIsTexturable_op :: "decls \<Rightarrow> TextureInfo \<Rightarrow> (DawnCaps, bool) state" where
  "onIsTexturable_op D TextureInfo_empty = State_Monad.return False"
| "onIsTexturable_op D (TextureInfo_Dawn spec) =
     (if fUsage spec AND TextureBinding D = 0 then State_Monad.return False
      else if fFormat spec = R8BG8Biplanar420Unorm D then
        (if fAspect spec = Plane0Only \<and> getViewFormat D spec \<noteq> R8Unorm D
         then State_Monad.return False
         else if fAspect spec = Plane1Only \<and> getViewFormat D spec \<noteq> RG8Unorm D
         then State_Monad.return False
         else isTexturable_op D (getViewFormat D spec))
      else if fFormat spec = R10X6BG10X6Biplanar420Unorm D then
        (if fAspect spec = Plane0Only \<and> getViewFormat D spec \<noteq> R16Unorm D
         then State_Monad.return False
         else if fAspect spec = Plane1Only \<and> getViewFormat D spec \<noteq> RG16Unorm D
         then State_Monad.return False
         else isTexturable_op D (getViewFormat D spec))
      else if fFormat spec = R8BG8A8Triplanar420Unorm D then
        (if fAspect spec = Plane0Only \<and> getViewFormat D spec \<noteq> R8Unorm D
         then State_Monad.return False
         else if fAspect spec = Plane1Only \<and> getViewFormat D spec \<noteq> RG8Unorm D
         then State_Monad.return False
         else if fAspect spec = Plane2Only \<and> getViewFormat D spec \<noteq> R8Unorm D
         then State_Monad.return False
         else isTexturable_op D (getViewFormat D spec))
      else isTexturable_op D (getViewFormat D spec))"

definition maxRenderTargetSampleCount_op :: "decls \<Rightarrow> TextureFormat \<Rightarrow> (DawnCaps, u32) state" where
  "maxRenderTargetSampleCount_op D format =
     do { formatInfo \<leftarrow> getFormatInfo_op D format;
          if fFlags formatInfo AND kRenderable_Flag D = 0 then State_Monad.return 0
          else if fFlags formatInfo AND kMSAA_Flag D \<noteq> 0 then State_Monad.return 8
          else State_Monad.return 1 }"

definition isRenderable_format_op :: "decls \<Rightarrow> TextureFormat \<Rightarrow> u32 \<Rightarrow> (DawnCaps, bool) state" where
  "isRenderable_format_op D format sampleCount =
     do { maxSampleCount \<leftarrow> maxRenderTargetSampleCount_op D format;
          State_Monad.return (sampleCount \<le> maxSampleCount) }"

fun isRenderable_op :: "decls \<Rightarrow> TextureInfo \<Rightarrow> (DawnCaps, bool) state" where
  "isRenderable_op D TextureInfo_empty = State_Monad.return False"
| "isRenderable_op D (TextureInfo_Dawn spec) =
     (if fUsage spec AND RenderAttachment D = 0 then State_Monad.return False
      else isRenderable_format_op D (getViewFormat D spec) (fSampleCount spec))"

fun isStorage_op :: "decls \<Rightarrow> TextureInfo \<Rightarrow> (DawnCaps, bool) state" where
  "isStorage_op D TextureInfo_empty = State_Monad.return False"
| "isStorage_op D (TextureInfo_Dawn spec) =
     (if fUsage spec AND StorageBinding D = 0 then State_Monad.return False
      else do { formatInfo \<leftarrow> getFormatInfo_op D (getViewFormat D spec);
                State_Monad.return
                  (fSampleCount spec = 1 \<and> kStorage_Flag D AND fFlags formatInfo \<noteq> 0) })"

definition getColorTypeInfo_op ::
  "decls \<Rightarrow> SkColorType \<Rightarrow> TextureInfo \<Rightarrow> (DawnCaps, error + ColorTypeInfo option) state" where
  "getColorTypeInfo_op D colorType textureInfo =
     (case dawnTextureSpec textureInfo of
        Inl e \<Rightarrow> State_Monad.return (Inl e)
      | Inr spec \<Rightarrow>
          (let dawnFormat = getViewFormat D spec
           in if dawnFormat = Undefined D then State_Monad.return (Inr None)
              else do { info \<leftarrow> getFormatInfo_op D dawnFormat;
                        State_Monad.return
                          (Inr (find_ColorTypeInfo (colorTypeInfos info) colorType)) }))"

definition supportsWritePixels_op :: "decls \<Rightarrow> TextureInfo \<Rightarrow> (DawnCaps, error + bool) state" where
  "supportsWritePixels_op D textureInfo =
     (case dawnTextureSpec textureInfo of
        Inl e \<Rightarrow> State_Monad.return (Inl e)
      | Inr spec \<Rightarrow> State_Monad.return (Inr (fUsage spec AND CopyDst D \<noteq> 0)))"

definition supportsReadPixels_op :: "decls \<Rightarrow> TextureInfo \<Rightarrow> (DawnCaps, error + bool) state" where
  "supportsReadPixels_op D textureInfo =
     (case dawnTextureSpec textureInfo of
        Inl e \<Rightarrow> State_Monad.return (Inl e)
      | Inr spec \<Rightarrow> State_Monad.return (Inr (fUsage spec AND CopySrc D \<noteq> 0)))"

definition supportedWritePixelsColorType_op ::
  "SkColorType \<Rightarrow> TextureInfo \<Rightarrow> SkColorType \<Rightarrow> (DawnCaps, SkColorType \<times> bool) state" where
  "supportedWritePixelsColorType_op dstColorType dstTextureInfo srcColorType =
     State_Monad.return (dstColorType, False)"

definition supportedReadPixelsColorType_op ::
  "decls \<Rightarrow> SkColorType \<Rightarrow> TextureInfo \<Rightarrow> SkColorType \<Rightarrow> (DawnCaps, SkColorType \<times> bool) state" where
  "supportedReadPixelsColorType_op D srcColorType srcTextureInfo dstColorType =
     do { dawnFormat \<leftarrow> getFormatFromColorType_op srcColorType;
          info \<leftarrow> getFormatInfo_op D dawnFormat;
          case find_ColorTypeInfo (colorTypeInfos info) srcColorType of
            Some found \<Rightarrow> State_Monad.return (srcColorType, False)
          | None \<Rightarrow> State_Monad.return (kUnknown_SkColorType, False) }"

definition getDefaultSampledTextureInfo_op ::
  "decls \<Rightarrow> SkColorType \<Rightarrow> Mipmapped \<Rightarrow> Protected \<Rightarrow> Renderable \<Rightarrow> (DawnCaps, TextureInfo) state" where
  "getDefaultSampledTextureInfo_op D colorType mipmapped protected renderable =
     do { let usage0 = TextureBinding D OR CopyDst D OR CopySrc D;
          let usage = (if renderable = Renderable_kYes then usage0 OR RenderAttachment D else usage0);
          format \<leftarrow> getFormatFromColorType_op colorType;
          if format = Undefined D then State_Monad.return TextureInfo_empty
          else State_Monad.return (TextureInfo_Dawn ((default_DawnTextureInfo D)
                 \<lparr>fSampleCount := 1,
                  fMipmapped := mipmapped,
                  fFormat := format,
                  fViewFormat := format,
                  fUsage := usage\<rparr>)) }"

definition getTextureInfoForSampledCopy_op ::
  "decls \<Rightarrow> TextureInfo \<Rightarrow> Mipmapped \<Rightarrow> (DawnCaps, TextureInfo) state" where
  "getTextureInfoForSampledCopy_op D textureInfo mipmapped =
     (case getDawnTextureInfo textureInfo of
        None \<Rightarrow> State_Monad.return TextureInfo_empty
      | Some info \<Rightarrow>
          State_Monad.return (TextureInfo_Dawn (info
            \<lparr>fSampleCount := 1,
             fMipmapped := mipmapped,
             fUsage := TextureBinding D OR CopyDst D OR CopySrc D\<rparr>)))"

definition getDefaultCompressedTextureInfo_op ::
  "decls \<Rightarrow> SkTextureCompressionType \<Rightarrow> Mipmapped \<Rightarrow> Protected \<Rightarrow> (DawnCaps, TextureInfo) state" where
  "getDefaultCompressedTextureInfo_op D compression mipmapped protected =
     (let usage = TextureBinding D OR CopyDst D OR CopySrc D;
          format = format_from_compression D compression
      in if format = Undefined D then State_Monad.return TextureInfo_empty
         else State_Monad.return (TextureInfo_Dawn ((default_DawnTextureInfo D)
                \<lparr>fSampleCount := 1,
                 fMipmapped := mipmapped,
                 fFormat := format,
                 fViewFormat := format,
                 fUsage := usage\<rparr>)))"

definition getDefaultMSAATextureInfo_op ::
  "decls \<Rightarrow> TextureInfo \<Rightarrow> Discardable \<Rightarrow> (DawnCaps, error + TextureInfo) state" where
  "getDefaultMSAATextureInfo_op D singleSampledInfo discardable =
     do { defaultMSAASamples \<leftarrow> this_member fDefaultMSAASamples;
          if defaultMSAASamples \<le> 1 then State_Monad.return (Inr TextureInfo_empty)
          else case dawnTextureSpec singleSampledInfo of
                 Inl e \<Rightarrow> State_Monad.return (Inl e)
               | Inr singleSpec \<Rightarrow>
                   do { sampleCount \<leftarrow> this_member fDefaultMSAASamples;
                        let info = (default_DawnTextureInfo D)
                              \<lparr>fSampleCount := sampleCount,
                               fMipmapped := Mipmapped_kNo,
                               fFormat := fFormat singleSpec,
                               fViewFormat := fFormat singleSpec,
                               fUsage := RenderAttachment D\<rparr>;
                        transientUsage \<leftarrow> this_member fSupportedTransientAttachmentUsage;
                        if transientUsage \<noteq> TextureUsage_None D \<and> discardable = Discardable_kYes
                        then State_Monad.return (Inr (TextureInfo_Dawn
                               (info\<lparr>fUsage := fUsage info OR transientUsage\<rparr>)))
                        else State_Monad.return (Inr (TextureInfo_Dawn info)) } }"

definition getDefaultDepthStencilTextureInfo_op ::
  "decls \<Rightarrow> u32 \<Rightarrow> u32 \<Rightarrow> Protected \<Rightarrow> (DawnCaps, TextureInfo) state" where
  "getDefaultDepthStencilTextureInfo_op D depthStencilType sampleCount protected =
     do { let info = (default_DawnTextureInfo D)
                \<lparr>fSampleCount := sampleCount,
                 fMipmapped := Mipmapped_kNo,
                 fFormat := DawnDepthStencilFlagsToFormat D depthStencilType,
                 fViewFormat := DawnDepthStencilFlagsToFormat D depthStencilType,
                 fUsage := RenderAttachment D\<rparr>;
          transientUsage \<leftarrow> this_member fSupportedTransientAttachmentUsage;
          if transientUsage \<noteq> TextureUsage_None D
          then State_Monad.return (TextureInfo_Dawn
                 (info\<lparr>fUsage := fUsage info OR transientUsage\<rparr>))
          else State_Monad.return (TextureInfo_Dawn info) }"

definition getDefaultStorageTextureInfo_op ::
  "decls \<Rightarrow> SkColorType \<Rightarrow> (DawnCaps, TextureInfo) state" where
  "getDefaultStorageTextureInfo_op D colorType =
     do { format \<leftarrow> getFormatFromColorType_op colorType;
          if format = Undefined D then State_Monad.return TextureInfo_empty
          else do { formatInfo \<leftarrow> getFormatInfo_op D format;
                    if kStorage_Flag D AND fFlags formatInfo = 0
                    then State_Monad.return TextureInfo_empty
                    else State_Monad.return (TextureInfo_Dawn ((default_DawnTextureInfo D)
                           \<lparr>fSampleCount := 1,
                            fMipmapped := Mipmapped_kNo,
                            fFormat := format,
                            fViewFormat := format,
                            fUsage := StorageBinding D OR TextureBinding D OR CopySrc D\<rparr>)) } }"

definition getRenderPassDescKeyForPipeline_op ::
  "decls \<Rightarrow> RenderPassDesc \<Rightarrow> (DawnCaps, u64) state" where
  "getRenderPassDescKeyForPipeline_op D renderPassDesc =
     do { let colorInfo = attachmentInfo D (fColorAttachment renderPassDesc);
          let depthStencilInfo = attachmentInfo D (fDepthStencilAttachment renderPassDesc);
          loadOp \<leftarrow> resolveTextureLoadOp_op;
          let shouldIncludeLoadResolveAttachmentBit = (loadOp \<noteq> None);
          let loadResolveKey =
                (if shouldIncludeLoadResolveAttachmentBit \<and>
                    isValid (fTextureInfo (fColorResolveAttachment renderPassDesc)) \<and>
                    fLoadOp (fColorResolveAttachment renderPassDesc) = LoadOp_kLoad
                 then 1 else 0);
          let colorAttachmentKey =
                push_bit 16 (getViewFormat D colorInfo) OR
                push_bit 1 (fSampleCount colorInfo) OR
                loadResolveKey;
          let dsAttachmentKey =
                push_bit 16 (getViewFormat D depthStencilInfo) OR
                fSampleCount depthStencilInfo;
          State_Monad.return (push_bit 32 (ucast colorAttachmentKey :: u64) OR ucast dsAttachmentKey) }"

definition makeGraphicsPipelineKey_op ::
  "decls \<Rightarrow> GraphicsPipelineDesc \<Rightarrow> RenderPassDesc \<Rightarrow> (DawnCaps, u32 list) state" where
  "makeGraphicsPipelineKey_op D pipelineDesc renderPassDesc =
     do { renderPassKey \<leftarrow> getRenderPassDescKeyForPipeline_op D renderPassDesc;
          State_Monad.return
            [renderStepID pipelineDesc,
             paintParamsID_asUInt pipelineDesc,
             ucast (renderPassKey AND 0xFFFFFFFF),
             ucast (drop_bit 32 renderPassKey AND 0xFFFFFFFF),
             fWriteSwizzle_asKey renderPassDesc] }"

definition makeComputePipelineKey_op :: "ComputePipelineDesc \<Rightarrow> (DawnCaps, u32 list) state" where
  "makeComputePipelineKey_op pipelineDesc =
     State_Monad.return [computeStep_uniqueID pipelineDesc]"

definition buildKeyForTexture_op ::
  "decls \<Rightarrow> SkISize \<Rightarrow> TextureInfo \<Rightarrow> u32 \<Rightarrow> Shareable \<Rightarrow> (DawnCaps, error + GraphiteResourceKey) state" where
  "buildKeyForTexture_op D dimensions info type shareable =
     (case dawnTextureSpec info of
        Inl e \<Rightarrow> State_Monad.return (Inl e)
      | Inr dawnSpec \<Rightarrow>
          (let formatKey = getViewFormat D dawnSpec;
               samplesKey = SamplesToKey D (fSampleCount dawnSpec)
           in State_Monad.return
                (Inr \<lparr>key_type = type,
                      key_shareable = shareable,
                      key_data =
                        [fWidth dimensions,
                         fHeight dimensions,
                         formatKey,
                         push_bit 0 samplesKey OR
                         push_bit 3 (isMipped dawnSpec) OR
                         push_bit 4 (fUsage dawnSpec)]\<rparr>)))"

text \<open>
  A call of one of the operations, with its arguments, and the answer it gives.
  \<open>answer_of\<close> is the answer of the function as defined in the sections above;
  \<open>invoke\<close> runs the computation, and \<open>invoke_all\<close> runs a sequence of calls, each on
  the state the one before left.
\<close>

datatype query =
    Q_onIsTexturable TextureInfo
  | Q_isTexturable TextureFormat
  | Q_isRenderable TextureInfo
  | Q_isRenderable_format TextureFormat u32
  | Q_isStorage TextureInfo
  | Q_maxRenderTargetSampleCount TextureFormat
  | Q_getColorTypeInfo SkColorType TextureInfo
  | Q_getDefaultSampledTextureInfo SkColorType Mipmapped Protected Renderable
  | Q_getTextureInfoForSampledCopy TextureInfo Mipmapped
  | Q_getDefaultCompressedTextureInfo SkTextureCompressionType Mipmapped Protected
  | Q_getDefaultMSAATextureInfo TextureInfo Discardable
  | Q_getDefaultDepthStencilTextureInfo u32 u32 Protected
  | Q_getDefaultStorageTextureInfo SkColorType
  | Q_supportsWritePixels TextureInfo
  | Q_supportsReadPixels TextureInfo
  | Q_supportedWritePixelsColorType SkColorType TextureInfo SkColorType
  | Q_supportedReadPixelsColorType SkColorType TextureInfo SkColorType
  | Q_getRenderPassDescKeyForPipeline RenderPassDesc
  | Q_makeGraphicsPipelineKey GraphicsPipelineDesc RenderPassDesc
  | Q_makeComputePipelineKey ComputePipelineDesc
  | Q_buildKeyForTexture SkISize TextureInfo u32 Shareable

datatype answer =
    A_bool bool
  | A_u32 u32
  | A_u64 u64
  | A_TextureInfo TextureInfo
  | A_ColorTypeInfo "ColorTypeInfo option"
  | A_SkColorType "SkColorType \<times> bool"
  | A_words "u32 list"
  | A_ResourceKey GraphiteResourceKey
  | A_error error

fun checked :: "('a \<Rightarrow> answer) \<Rightarrow> error + 'a \<Rightarrow> answer" where
  "checked A (Inl e) = A_error e"
| "checked A (Inr x) = A x"

fun answer_of :: "decls \<Rightarrow> DawnCaps \<Rightarrow> query \<Rightarrow> answer" where
  "answer_of D caps (Q_onIsTexturable info) = A_bool (onIsTexturable D caps info)"
| "answer_of D caps (Q_isTexturable format) = A_bool (isTexturable D caps format)"
| "answer_of D caps (Q_isRenderable info) = A_bool (isRenderable D caps info)"
| "answer_of D caps (Q_isRenderable_format format sampleCount) =
     A_bool (isRenderable_format D caps format sampleCount)"
| "answer_of D caps (Q_isStorage info) = A_bool (isStorage D caps info)"
| "answer_of D caps (Q_maxRenderTargetSampleCount format) =
     A_u32 (maxRenderTargetSampleCount D caps format)"
| "answer_of D caps (Q_getColorTypeInfo colorType info) =
     checked A_ColorTypeInfo (getColorTypeInfo D caps colorType info)"
| "answer_of D caps (Q_getDefaultSampledTextureInfo colorType mipmapped protected renderable) =
     A_TextureInfo (getDefaultSampledTextureInfo D caps colorType mipmapped protected renderable)"
| "answer_of D caps (Q_getTextureInfoForSampledCopy info mipmapped) =
     A_TextureInfo (getTextureInfoForSampledCopy D caps info mipmapped)"
| "answer_of D caps (Q_getDefaultCompressedTextureInfo compression mipmapped protected) =
     A_TextureInfo (getDefaultCompressedTextureInfo D caps compression mipmapped protected)"
| "answer_of D caps (Q_getDefaultMSAATextureInfo info discardable) =
     checked A_TextureInfo (getDefaultMSAATextureInfo D caps info discardable)"
| "answer_of D caps (Q_getDefaultDepthStencilTextureInfo depthStencilType sampleCount protected) =
     A_TextureInfo (getDefaultDepthStencilTextureInfo D caps depthStencilType sampleCount protected)"
| "answer_of D caps (Q_getDefaultStorageTextureInfo colorType) =
     A_TextureInfo (getDefaultStorageTextureInfo D caps colorType)"
| "answer_of D caps (Q_supportsWritePixels info) = checked A_bool (supportsWritePixels D caps info)"
| "answer_of D caps (Q_supportsReadPixels info) = checked A_bool (supportsReadPixels D caps info)"
| "answer_of D caps (Q_supportedWritePixelsColorType dstColorType info srcColorType) =
     A_SkColorType (supportedWritePixelsColorType caps dstColorType info srcColorType)"
| "answer_of D caps (Q_supportedReadPixelsColorType srcColorType info dstColorType) =
     A_SkColorType (supportedReadPixelsColorType D caps srcColorType info dstColorType)"
| "answer_of D caps (Q_getRenderPassDescKeyForPipeline renderPassDesc) =
     A_u64 (getRenderPassDescKeyForPipeline D caps renderPassDesc)"
| "answer_of D caps (Q_makeGraphicsPipelineKey pipelineDesc renderPassDesc) =
     A_words (makeGraphicsPipelineKey D caps pipelineDesc renderPassDesc)"
| "answer_of D caps (Q_makeComputePipelineKey pipelineDesc) =
     A_words (makeComputePipelineKey caps pipelineDesc)"
| "answer_of D caps (Q_buildKeyForTexture dimensions info type shareable) =
     checked A_ResourceKey (buildKeyForTexture D caps dimensions info type shareable)"

definition answering :: "('a \<Rightarrow> answer) \<Rightarrow> (DawnCaps, 'a) state \<Rightarrow> (DawnCaps, answer) state" where
  "answering A operation = do { result \<leftarrow> operation; State_Monad.return (A result) }"

fun invoke :: "decls \<Rightarrow> query \<Rightarrow> (DawnCaps, answer) state" where
  "invoke D (Q_onIsTexturable info) = answering A_bool (onIsTexturable_op D info)"
| "invoke D (Q_isTexturable format) = answering A_bool (isTexturable_op D format)"
| "invoke D (Q_isRenderable info) = answering A_bool (isRenderable_op D info)"
| "invoke D (Q_isRenderable_format format sampleCount) =
     answering A_bool (isRenderable_format_op D format sampleCount)"
| "invoke D (Q_isStorage info) = answering A_bool (isStorage_op D info)"
| "invoke D (Q_maxRenderTargetSampleCount format) =
     answering A_u32 (maxRenderTargetSampleCount_op D format)"
| "invoke D (Q_getColorTypeInfo colorType info) =
     answering (checked A_ColorTypeInfo) (getColorTypeInfo_op D colorType info)"
| "invoke D (Q_getDefaultSampledTextureInfo colorType mipmapped protected renderable) =
     answering A_TextureInfo
       (getDefaultSampledTextureInfo_op D colorType mipmapped protected renderable)"
| "invoke D (Q_getTextureInfoForSampledCopy info mipmapped) =
     answering A_TextureInfo (getTextureInfoForSampledCopy_op D info mipmapped)"
| "invoke D (Q_getDefaultCompressedTextureInfo compression mipmapped protected) =
     answering A_TextureInfo (getDefaultCompressedTextureInfo_op D compression mipmapped protected)"
| "invoke D (Q_getDefaultMSAATextureInfo info discardable) =
     answering (checked A_TextureInfo) (getDefaultMSAATextureInfo_op D info discardable)"
| "invoke D (Q_getDefaultDepthStencilTextureInfo depthStencilType sampleCount protected) =
     answering A_TextureInfo
       (getDefaultDepthStencilTextureInfo_op D depthStencilType sampleCount protected)"
| "invoke D (Q_getDefaultStorageTextureInfo colorType) =
     answering A_TextureInfo (getDefaultStorageTextureInfo_op D colorType)"
| "invoke D (Q_supportsWritePixels info) =
     answering (checked A_bool) (supportsWritePixels_op D info)"
| "invoke D (Q_supportsReadPixels info) =
     answering (checked A_bool) (supportsReadPixels_op D info)"
| "invoke D (Q_supportedWritePixelsColorType dstColorType info srcColorType) =
     answering A_SkColorType (supportedWritePixelsColorType_op dstColorType info srcColorType)"
| "invoke D (Q_supportedReadPixelsColorType srcColorType info dstColorType) =
     answering A_SkColorType (supportedReadPixelsColorType_op D srcColorType info dstColorType)"
| "invoke D (Q_getRenderPassDescKeyForPipeline renderPassDesc) =
     answering A_u64 (getRenderPassDescKeyForPipeline_op D renderPassDesc)"
| "invoke D (Q_makeGraphicsPipelineKey pipelineDesc renderPassDesc) =
     answering A_words (makeGraphicsPipelineKey_op D pipelineDesc renderPassDesc)"
| "invoke D (Q_makeComputePipelineKey pipelineDesc) =
     answering A_words (makeComputePipelineKey_op pipelineDesc)"
| "invoke D (Q_buildKeyForTexture dimensions info type shareable) =
     answering (checked A_ResourceKey) (buildKeyForTexture_op D dimensions info type shareable)"

fun invoke_all :: "decls \<Rightarrow> query list \<Rightarrow> (DawnCaps, answer list) state" where
  "invoke_all D [] = State_Monad.return []"
| "invoke_all D (q # qs) =
     do { a \<leftarrow> invoke D q; as \<leftarrow> invoke_all D qs; State_Monad.return (a # as) }"

subsection \<open>A sample instance\<close>

text \<open>
  One choice of the declared values, to evaluate the functions at concrete inputs:
  pairwise distinct formats, single-bit usages and flags, \<^verbatim>\<open>getViewFormat\<close>
  returning the view format unless it is \<^verbatim>\<open>Undefined\<close>, and \<^verbatim>\<open>SamplesToKey\<close>
  mapping 1, 2, 4, 8 and 16 to 0 up to 4.
\<close>

definition sample_decls :: decls where
  "sample_decls =
     \<lparr>Undefined = 0, RGBA8Unorm = 18, R8Unorm = 1, R16Unorm = 96, BGRA8Unorm = 23,
      RGBA16Float = 34, R16Float = 7, RG8Unorm = 8, RG16Unorm = 97, RGB10A2Unorm = 26,
      RG16Float = 17, Stencil8 = 38, Depth16Unorm = 39, Depth32Float = 42,
      Depth24PlusStencil8 = 41, BC1RGBAUnorm = 44, ETC2RGB8Unorm = 58, External = 105,
      R8BG8Biplanar420Unorm = 101, R10X6BG10X6Biplanar420Unorm = 102,
      R8BG8A8Triplanar420Unorm = 103,
      TextureUsage_None = 0, CopySrc = 1, CopyDst = 2, TextureBinding = 4,
      StorageBinding = 8, RenderAttachment = 16, TransientAttachment = 32,
      kTexturable_Flag = 1, kRenderable_Flag = 2, kMSAA_Flag = 4, kStorage_Flag = 16,
      kAllFlags = 31,
      ct_kUploadData_Flag = 1, ct_kRenderable_Flag = 2,
      getViewFormat = (\<lambda>info. if fViewFormat info \<noteq> 0 then fViewFormat info else fFormat info),
      SamplesToKey = (\<lambda>n. if n = 1 then 0 else if n = 2 then 1 else if n = 4 then 2
                          else if n = 8 then 3 else if n = 16 then 4 else 8),
      DawnDepthStencilFlagsToFormat = (\<lambda>flags. if flags = 1 then 39 else if flags = 2 then 38
                          else if flags = 3 then 41 else 0),
      default_DawnTextureInfo =
        \<lparr>fSampleCount = 1, fMipmapped = Mipmapped_kNo, fFormat = 0, fViewFormat = 0,
         fUsage = 0, fAspect = TextureAspect_other 0\<rparr>,
      default_ColorTypeInfo =
        \<lparr>ct_fColorType = kUnknown_SkColorType, ct_fFlags = 0,
         fReadSwizzle = Swizzle ''rgba'', fWriteSwizzle = Swizzle ''rgba''\<rparr>,
      default_FormatInfo = \<lparr>fFlags = 0, fColorTypeInfoCount = 0, fColorTypeInfos = []\<rparr>\<rparr>"

definition sample_device :: Device where
  "sample_device =
     \<lparr>HasFeature = (\<lambda>feature. feature \<in> {TransientAttachments, DawnLoadResolveTexture,
                                            TextureCompressionBC, Unorm16TextureFormats}),
      maxTextureDimension2D = 8192,
      backendType = BackendType_other 0\<rparr>"

definition sample_base :: DawnCaps where
  "sample_base =
     \<lparr>fFormatTable = [],
      fColorTypeToFormatTable = (\<lambda>colorType. 0),
      fMaxTextureSize = 0,
      fRequiredTransferBufferAlignment = 1,
      fRequiredUniformBufferAlignment = 1,
      fRequiredStorageBufferAlignment = 1,
      fTextureDataRowBytesAlignment = 1,
      fUniformBufferLayout = Layout_other 0,
      fStorageBufferLayout = Layout_other 0,
      fSeparateTextureAndSamplerBinding = False,
      fStorageBufferSupport = False,
      fStorageBufferPreferred = False,
      fDrawBufferCanBeMapped = True,
      fComputeSupport = False,
      fClampToBorderSupport = True,
      fBufferMapsAreAsync = True,
      fMSAARenderToSingleSampledSupport = False,
      fSupportedTransientAttachmentUsage = 0,
      fSupportedResolveTextureLoadOp = None,
      fAllowCpuSync = True,
      fUseAsyncPipelineCreation = True,
      fAllowScopedErrorChecks = True,
      fFullCompressedUploadSizeMustAlignToBlockDims = False,
      fDefaultMSAASamples = 1,
      fInfinitySupport = False,
      fShaderDerivativeSupport = False,
      fDualSourceBlendingSupport = False,
      fFBFetchSupport = False\<rparr>"

definition sample_caps :: DawnCaps where
  "sample_caps =
     DawnCaps_new sample_decls (\<lambda>options caps. caps\<lparr>fDefaultMSAASamples := options\<rparr>)
       sample_base \<lparr>fDevice = sample_device, fTick = True\<rparr> 4"

text \<open>
  A four-sampled, mipmapped \<^verbatim>\<open>RGBA8Unorm\<close> texture with storage and render usage, and
  a render pass with a color, a resolve and a depth-stencil attachment.
\<close>

definition sample_spec :: DawnTextureInfo where
  "sample_spec =
     \<lparr>fSampleCount = 4, fMipmapped = Mipmapped_kYes, fFormat = 18, fViewFormat = 18,
      fUsage = 24, fAspect = TextureAspect_other 0\<rparr>"

definition sample_renderPassDesc :: RenderPassDesc where
  "sample_renderPassDesc =
     \<lparr>fColorAttachment =
        \<lparr>fTextureInfo = TextureInfo_Dawn
           \<lparr>fSampleCount = 4, fMipmapped = Mipmapped_kNo, fFormat = 18, fViewFormat = 18,
            fUsage = 16, fAspect = TextureAspect_other 0\<rparr>,
         fLoadOp = LoadOp_other 0\<rparr>,
      fColorResolveAttachment =
        \<lparr>fTextureInfo = TextureInfo_Dawn
           \<lparr>fSampleCount = 1, fMipmapped = Mipmapped_kNo, fFormat = 18, fViewFormat = 18,
            fUsage = 20, fAspect = TextureAspect_other 0\<rparr>,
         fLoadOp = LoadOp_kLoad\<rparr>,
      fDepthStencilAttachment =
        \<lparr>fTextureInfo = TextureInfo_Dawn
           \<lparr>fSampleCount = 4, fMipmapped = Mipmapped_kNo, fFormat = 41, fViewFormat = 0,
            fUsage = 16, fAspect = TextureAspect_other 0\<rparr>,
         fLoadOp = LoadOp_other 1\<rparr>,
      fWriteSwizzle_asKey = 0x3210\<rparr>"

text \<open>A sequence of calls, the first and the last being the same query.\<close>

definition sample_queries :: "query list" where
  "sample_queries =
     [Q_isStorage (TextureInfo_Dawn sample_spec),
      Q_maxRenderTargetSampleCount 18,
      Q_getDefaultSampledTextureInfo kRGB_888x_SkColorType Mipmapped_kYes Protected_kNo
        Renderable_kYes,
      Q_getRenderPassDescKeyForPipeline sample_renderPassDesc,
      Q_buildKeyForTexture \<lparr>fWidth = 640, fHeight = 480\<rparr> (TextureInfo_Dawn sample_spec) 3
        Shareable_kNo,
      Q_isStorage (TextureInfo_Dawn sample_spec)]"

section \<open>Properties\<close>

subsection \<open>The format list and the format table\<close>

text \<open>
  What each way out of the scan says about its index, for any list scanned from
  position \<open>i\<close>.
\<close>

lemma GetFormatIndex_loop_cases:
  "case GetFormatIndex_loop D ks i f of
     Found j \<Rightarrow> (\<exists>m < length ks. j = i + m \<and> ks ! m = f)
   | Unsupported j \<Rightarrow>
       (\<exists>m < length ks. j = i + m \<and> ks ! m = Undefined D \<and> f \<notin> set (take (Suc m) ks))
   | Unreachable \<Rightarrow> Undefined D \<notin> set ks"
proof (induction ks arbitrary: i)
  case Nil
  show ?case by simp
next
  case (Cons k ks)
  show ?case
  proof (cases "f = k \<or> k = Undefined D")
    case True
    then show ?thesis by auto
  next
    case False
    then have step: "GetFormatIndex_loop D (k # ks) i f = GetFormatIndex_loop D ks (Suc i) f"
      by simp
    show ?thesis
    proof (cases "GetFormatIndex_loop D ks (Suc i) f")
      case (Found j)
      with Cons.IH [of "Suc i"] obtain m where "m < length ks" "j = Suc i + m" "ks ! m = f"
        by auto
      then have "Suc m < length (k # ks) \<and> j = i + Suc m \<and> (k # ks) ! Suc m = f" by simp
      with step Found show ?thesis by (auto simp del: GetFormatIndex_loop.simps)
    next
      case (Unsupported j)
      with Cons.IH [of "Suc i"] obtain m where
        "m < length ks" "j = Suc i + m" "ks ! m = Undefined D" "f \<notin> set (take (Suc m) ks)"
        by auto
      with False have "Suc m < length (k # ks) \<and> j = i + Suc m \<and>
          (k # ks) ! Suc m = Undefined D \<and> f \<notin> set (take (Suc (Suc m)) (k # ks))"
        by simp
      with step Unsupported show ?thesis
        by (auto simp del: GetFormatIndex_loop.simps take_Suc_Cons)
    next
      case Unreachable
      with Cons.IH [of "Suc i"] False step show ?thesis by auto
    qed
  qed
qed

lemma kFormats_length: "length (kFormats D) = kFormatCnt"
  by (simp add: kFormats_def kFormatCnt_def)

lemma kFormats_last: "last (kFormats D) = Undefined D"
  by (simp add: kFormats_def)

lemma kFormats_sentinel: "Undefined D \<in> set (kFormats D)"
  by (simp add: kFormats_def)

lemma GetFormatIndex_cases:
  "case GetFormatIndex D format of
     Found i \<Rightarrow> i < kFormatCnt \<and> kFormats D ! i = format
   | Unsupported i \<Rightarrow> i < kFormatCnt \<and> kFormats D ! i = Undefined D \<and>
                     format \<notin> set (take (Suc i) (kFormats D))
   | Unreachable \<Rightarrow> False"
  using GetFormatIndex_loop_cases [where D = D and ks = "kFormats D" and i = 0 and f = format]
    kFormats_sentinel [of D]
  by (auto simp: GetFormatIndex_def kFormats_length split: FormatIndex.splits)

lemma distinct_last_index:
  assumes "distinct ks" "i < length ks" "ks ! i = last ks"
  shows "i = length ks - 1"
proof -
  from assms(2) have ne: "ks \<noteq> []" by auto
  then have "last ks = ks ! (length ks - 1)" by (rule last_conv_nth)
  moreover from ne have "length ks - 1 < length ks" by simp
  ultimately show ?thesis using assms by (simp add: nth_eq_iff_index_eq)
qed

lemma GetFormatIndex_Unsupported_distinct:
  assumes "GetFormatIndex D format = Unsupported i" "distinct (kFormats D)"
  shows "i = kFormatCnt - 1 \<and> format \<notin> set (kFormats D)"
proof -
  from GetFormatIndex_cases [of D format] assms(1)
  have i: "i < kFormatCnt" "kFormats D ! i = Undefined D"
    "format \<notin> set (take (Suc i) (kFormats D))" by auto
  from i(1,2) assms(2) have "i = length (kFormats D) - 1"
    by (intro distinct_last_index) (simp_all add: kFormats_length kFormats_last)
  then have eq: "i = kFormatCnt - 1" by (simp add: kFormats_length)
  then have "take (Suc i) (kFormats D) = kFormats D"
    by (simp add: kFormats_length kFormatCnt_def)
  with i(3) eq show ?thesis by simp
qed

lemma GetFormatIndex_bound: "index_of (GetFormatIndex D format) < kFormatCnt"
  using GetFormatIndex_cases [of D format] by (auto split: FormatIndex.splits)

lemma updFormatInfo_length:
  "length (fFormatTable (updFormatInfo D format upd caps)) = length (fFormatTable caps)"
  by (simp add: updFormatInfo_def Let_def)

lemma setColorType_table:
  "fFormatTable (setColorType D colorType formats caps) = fFormatTable caps"
  by (induction formats) (auto split: option.splits)

lemma initFormatTable_color_length:
  "length (fFormatTable (initFormatTable_color D device caps)) = length (fFormatTable caps)"
  unfolding initFormatTable_color_def Let_def by (simp add: updFormatInfo_length)

lemma initFormatTable_other_length:
  "length (fFormatTable (initFormatTable_other D caps)) = length (fFormatTable caps)"
  unfolding initFormatTable_other_def Let_def by (simp add: updFormatInfo_length)

lemma initFormatTable_colorTypes_table:
  "fFormatTable (initFormatTable_colorTypes D caps) = fFormatTable caps"
  unfolding initFormatTable_colorTypes_def Let_def
  by (simp add: setColorType_table del: setColorType.simps)

lemma initFormatTable_length:
  "length (fFormatTable (initFormatTable D device caps)) = length (fFormatTable caps)"
  by (simp add: initFormatTable_def initFormatTable_colorTypes_table
      initFormatTable_other_length initFormatTable_color_length)

lemma GetFormatIndex_listed:
  assumes "distinct (kFormats D)" "format \<in> set (kFormats D)"
  shows "\<exists>i. GetFormatIndex D format = Found i \<and> kFormats D ! i = format"
  using GetFormatIndex_cases [of D format] GetFormatIndex_Unsupported_distinct [of D format] assms
  by (cases "GetFormatIndex D format") auto

lemma GetFormatIndex_unlisted:
  assumes "distinct (kFormats D)" "format \<notin> set (kFormats D)"
  shows "GetFormatIndex D format = Unsupported (kFormatCnt - 1)"
proof (cases "GetFormatIndex D format")
  case (Found i)
  with GetFormatIndex_cases [of D format] have "i < length (kFormats D)" "kFormats D ! i = format"
    by (simp_all add: kFormats_length)
  then have "format \<in> set (kFormats D)" by (metis nth_mem)
  with assms(2) show ?thesis by simp
next
  case (Unsupported i)
  with GetFormatIndex_Unsupported_distinct [OF Unsupported assms(1)] show ?thesis by simp
next
  case Unreachable
  with GetFormatIndex_cases [of D format] show ?thesis by simp
qed

lemma GetFormatIndex_returned:
  "kFormats D ! index_of (GetFormatIndex D format) = format \<or>
   kFormats D ! index_of (GetFormatIndex D format) = Undefined D"
  using GetFormatIndex_cases [of D format] by (cases "GetFormatIndex D format") auto

text \<open>
  C3. The format list \<open>kFormats\<close> ends with the \<open>Undefined\<close> sentinel and has
  \<open>kFormatCnt\<close> entries. For every texture format, \<open>GetFormatIndex\<close> leaves the scan
  by one of its two \<^verbatim>\<open>return i\<close> statements, never by the end of the loop
  (\<^verbatim>\<open>SkUNREACHABLE\<close>), and the index it returns is below \<open>kFormatCnt\<close>; the entry of
  \<open>kFormats\<close> at the returned index is the format or the sentinel. When the listed
  enumerators are pairwise different, the index returned for a listed format is the
  index of that format, and the index returned for a format that is not listed is the
  last one, the index of the sentinel. So every access to a format table of
  \<open>kFormatCnt\<close> entries at the returned index is in bounds, and \<^verbatim>\<open>initFormatTable\<close>,
  which writes the table at such indices only, keeps its size.
\<close>

theorem GetFormatIndex_in_bounds:
  "last (kFormats D) = Undefined D \<and>
   length (kFormats D) = kFormatCnt \<and>
   index_of (GetFormatIndex D format) < kFormatCnt \<and>
   (case GetFormatIndex D format of
      Found i \<Rightarrow> i < kFormatCnt \<and> kFormats D ! i = format
    | Unsupported i \<Rightarrow>
        i < kFormatCnt \<and> kFormats D ! i = Undefined D \<and>
        (distinct (kFormats D) \<longrightarrow> i = kFormatCnt - 1 \<and> format \<notin> set (kFormats D))
    | Unreachable \<Rightarrow> False) \<and>
   (distinct (kFormats D) \<and> format \<in> set (kFormats D) \<longrightarrow>
      (\<exists>i. GetFormatIndex D format = Found i \<and> kFormats D ! i = format)) \<and>
   (kFormats D ! index_of (GetFormatIndex D format) = format \<or>
    kFormats D ! index_of (GetFormatIndex D format) = Undefined D) \<and>
   (distinct (kFormats D) \<and> format \<in> set (kFormats D) \<longrightarrow>
      kFormats D ! index_of (GetFormatIndex D format) = format) \<and>
   (distinct (kFormats D) \<and> format \<notin> set (kFormats D) \<longrightarrow>
      index_of (GetFormatIndex D format) = kFormatCnt - 1 \<and>
      kFormats D ! index_of (GetFormatIndex D format) = Undefined D) \<and>
   (length (fFormatTable caps) = kFormatCnt \<longrightarrow>
      index_of (GetFormatIndex D format) < length (fFormatTable caps) \<and>
      length (fFormatTable (initFormatTable D device caps)) = kFormatCnt)"
proof -
  have tagged: "case GetFormatIndex D format of
      Found i \<Rightarrow> i < kFormatCnt \<and> kFormats D ! i = format
    | Unsupported i \<Rightarrow>
        i < kFormatCnt \<and> kFormats D ! i = Undefined D \<and>
        (distinct (kFormats D) \<longrightarrow> i = kFormatCnt - 1 \<and> format \<notin> set (kFormats D))
    | Unreachable \<Rightarrow> False"
    using GetFormatIndex_cases [of D format] GetFormatIndex_Unsupported_distinct [of D format]
    by (auto split: FormatIndex.splits)
  have listed: "distinct (kFormats D) \<and> format \<in> set (kFormats D) \<longrightarrow>
      (\<exists>i. GetFormatIndex D format = Found i \<and> kFormats D ! i = format)"
    using GetFormatIndex_listed [of D format] by blast
  have listed_index: "distinct (kFormats D) \<and> format \<in> set (kFormats D) \<longrightarrow>
      kFormats D ! index_of (GetFormatIndex D format) = format"
    using GetFormatIndex_listed [of D format] by auto
  have unlisted_index: "distinct (kFormats D) \<and> format \<notin> set (kFormats D) \<longrightarrow>
      index_of (GetFormatIndex D format) = kFormatCnt - 1 \<and>
      kFormats D ! index_of (GetFormatIndex D format) = Undefined D"
  proof
    assume a: "distinct (kFormats D) \<and> format \<notin> set (kFormats D)"
    then have u: "GetFormatIndex D format = Unsupported (kFormatCnt - 1)"
      by (intro GetFormatIndex_unlisted) simp_all
    with GetFormatIndex_cases [of D format]
    show "index_of (GetFormatIndex D format) = kFormatCnt - 1 \<and>
      kFormats D ! index_of (GetFormatIndex D format) = Undefined D" by simp
  qed
  have sizes: "length (fFormatTable caps) = kFormatCnt \<longrightarrow>
      index_of (GetFormatIndex D format) < length (fFormatTable caps) \<and>
      length (fFormatTable (initFormatTable D device caps)) = kFormatCnt"
    by (simp add: GetFormatIndex_bound initFormatTable_length)
  from kFormats_last [of D] kFormats_length [of D] GetFormatIndex_bound [of D format]
    tagged listed GetFormatIndex_returned [of D format] listed_index unlisted_index sizes
  show ?thesis by blast
qed

text \<open>
  The sample instance has pairwise different enumerators and a table of \<open>kFormatCnt\<close>
  entries; for the format 77, which is not listed, the index returned is 17, where the
  sentinel is, and for \<^verbatim>\<open>BGRA8Unorm\<close> it is 3, where \<^verbatim>\<open>BGRA8Unorm\<close> is.
\<close>

theorem GetFormatIndex_in_bounds_witness:
  "distinct (kFormats sample_decls) \<and>
   length (fFormatTable sample_caps) = kFormatCnt \<and>
   GetFormatIndex sample_decls 77 = Unsupported 17 \<and>
   17 = kFormatCnt - 1 \<and>
   77 \<notin> set (kFormats sample_decls) \<and>
   index_of (GetFormatIndex sample_decls 77) = 17 \<and>
   kFormats sample_decls ! index_of (GetFormatIndex sample_decls 77) = Undefined sample_decls \<and>
   index_of (GetFormatIndex sample_decls 77) < length (fFormatTable sample_caps) \<and>
   length (fFormatTable (initFormatTable sample_decls sample_device sample_caps)) = kFormatCnt \<and>
   BGRA8Unorm sample_decls \<in> set (kFormats sample_decls) \<and>
   GetFormatIndex sample_decls (BGRA8Unorm sample_decls) = Found 3 \<and>
   index_of (GetFormatIndex sample_decls (BGRA8Unorm sample_decls)) = 3 \<and>
   kFormats sample_decls ! index_of (GetFormatIndex sample_decls (BGRA8Unorm sample_decls)) =
     BGRA8Unorm sample_decls"
proof -
  have d: "distinct (kFormats sample_decls)" by code_simp
  have l: "length (fFormatTable sample_caps) = kFormatCnt" by code_simp
  have g: "GetFormatIndex sample_decls 77 = Unsupported 17" by code_simp
  have k: "17 = kFormatCnt - 1" by (simp add: kFormatCnt_def)
  have n: "77 \<notin> set (kFormats sample_decls)" by code_simp
  have m: "BGRA8Unorm sample_decls \<in> set (kFormats sample_decls)" by code_simp
  have f: "GetFormatIndex sample_decls (BGRA8Unorm sample_decls) = Found 3" by code_simp
  from GetFormatIndex_in_bounds [where D = sample_decls and format = 77 and caps = sample_caps
      and device = sample_device]
    GetFormatIndex_in_bounds [where D = sample_decls and format = "BGRA8Unorm sample_decls"
      and caps = sample_caps and device = sample_device]
    d l g k n m f
  show ?thesis by simp
qed

subsection \<open>Sample counts\<close>

text \<open>
  C5. For every texture format, \<open>maxRenderTargetSampleCount\<close> is 0 when the format's
  table entry lacks the renderable flag, 8 when it has the renderable and the MSAA
  flag, and 1 when it is renderable without the MSAA flag; and \<open>isRenderable\<close> of a
  format and a sample count holds exactly when the sample count is at most that
  maximum.
\<close>

theorem maxRenderTargetSampleCount_by_flags:
  "maxRenderTargetSampleCount D caps format =
     (if fFlags (getFormatInfo D caps format) AND kRenderable_Flag D = 0 then 0
      else if fFlags (getFormatInfo D caps format) AND kMSAA_Flag D \<noteq> 0 then 8
      else 1) \<and>
   maxRenderTargetSampleCount D caps format \<in> {0, 1, 8} \<and>
   (isRenderable_format D caps format sampleCount \<longleftrightarrow>
      sampleCount \<le> maxRenderTargetSampleCount D caps format)"
  by (simp add: maxRenderTargetSampleCount_def isRenderable_format_def Let_def)

text \<open>
  In the sample state the maximum is 8 for \<^verbatim>\<open>RGBA8Unorm\<close> and 0 for \<^verbatim>\<open>Stencil8\<close>,
  whose entry has the MSAA flag only; it is 1 once the entry of \<^verbatim>\<open>BGRA8Unorm\<close> is
  texturable and renderable without the MSAA flag.
\<close>

theorem maxRenderTargetSampleCount_by_flags_witness:
  "maxRenderTargetSampleCount sample_decls sample_caps (RGBA8Unorm sample_decls) = 8 \<and>
   isRenderable_format sample_decls sample_caps (RGBA8Unorm sample_decls) 4 \<and>
   \<not> isRenderable_format sample_decls sample_caps (RGBA8Unorm sample_decls) 16 \<and>
   maxRenderTargetSampleCount sample_decls sample_caps (Stencil8 sample_decls) = 0 \<and>
   \<not> isRenderable_format sample_decls sample_caps (Stencil8 sample_decls) 1 \<and>
   maxRenderTargetSampleCount sample_decls
     (sample_caps\<lparr>fFormatTable := (fFormatTable sample_caps)
        [3 := \<lparr>fFlags = 3, fColorTypeInfoCount = 0, fColorTypeInfos = []\<rparr>]\<rparr>)
     (BGRA8Unorm sample_decls) = 1"
proof -
  let ?caps = "sample_caps\<lparr>fFormatTable := (fFormatTable sample_caps)
        [3 := \<lparr>fFlags = 3, fColorTypeInfoCount = 0, fColorTypeInfos = []\<rparr>]\<rparr>"
  have a: "fFlags (getFormatInfo sample_decls sample_caps (RGBA8Unorm sample_decls)) = 31"
    by code_simp
  have b: "fFlags (getFormatInfo sample_decls sample_caps (Stencil8 sample_decls)) = 4"
    by code_simp
  have c: "fFlags (getFormatInfo sample_decls ?caps (BGRA8Unorm sample_decls)) = 3"
    by code_simp
  have k: "kRenderable_Flag sample_decls = 2" "kMSAA_Flag sample_decls = 4"
    by code_simp+
  from maxRenderTargetSampleCount_by_flags [of sample_decls sample_caps "RGBA8Unorm sample_decls" 4]
    maxRenderTargetSampleCount_by_flags [of sample_decls sample_caps "RGBA8Unorm sample_decls" 16]
    maxRenderTargetSampleCount_by_flags [of sample_decls sample_caps "Stencil8 sample_decls" 1]
    maxRenderTargetSampleCount_by_flags [of sample_decls ?caps "BGRA8Unorm sample_decls" 0]
    a b c k
  show ?thesis by simp
qed

text \<open>
  C9. With sample count 0, \<open>isRenderable\<close> of a format holds for every format, also
  for one whose table entry lacks the renderable flag, where the maximum is 0; so
  \<open>isRenderable\<close> holds for every valid texture info with \<^verbatim>\<open>RenderAttachment\<close> usage
  and sample count 0, whatever its format.
\<close>

theorem isRenderable_zero_samples:
  "isRenderable_format D caps format 0 \<and>
   (fFlags (getFormatInfo D caps format) AND kRenderable_Flag D = 0 \<longrightarrow>
      maxRenderTargetSampleCount D caps format = 0 \<and> isRenderable_format D caps format 0) \<and>
   (fUsage spec AND RenderAttachment D \<noteq> 0 \<and> fSampleCount spec = 0 \<longrightarrow>
      isRenderable D caps (TextureInfo_Dawn spec))"
  by (simp add: isRenderable_format_def maxRenderTargetSampleCount_def Let_def)

text \<open>
  In the sample state the entry of \<^verbatim>\<open>Stencil8\<close> has the MSAA flag only, and a texture
  with that view format, render usage and no samples is reported renderable.
\<close>

theorem isRenderable_zero_samples_witness:
  "fFlags (getFormatInfo sample_decls sample_caps (Stencil8 sample_decls)) AND
     kRenderable_Flag sample_decls = 0 \<and>
   maxRenderTargetSampleCount sample_decls sample_caps (Stencil8 sample_decls) = 0 \<and>
   isRenderable_format sample_decls sample_caps (Stencil8 sample_decls) 0 \<and>
   fUsage (sample_spec\<lparr>fSampleCount := 0, fViewFormat := Stencil8 sample_decls\<rparr>) AND
     RenderAttachment sample_decls \<noteq> 0 \<and>
   fSampleCount (sample_spec\<lparr>fSampleCount := 0, fViewFormat := Stencil8 sample_decls\<rparr>) = 0 \<and>
   isRenderable sample_decls sample_caps
     (TextureInfo_Dawn (sample_spec\<lparr>fSampleCount := 0, fViewFormat := Stencil8 sample_decls\<rparr>))"
proof -
  have a: "fFlags (getFormatInfo sample_decls sample_caps (Stencil8 sample_decls)) AND
     kRenderable_Flag sample_decls = 0" by code_simp
  have b: "fUsage (sample_spec\<lparr>fSampleCount := 0, fViewFormat := Stencil8 sample_decls\<rparr>) AND
     RenderAttachment sample_decls \<noteq> 0" by code_simp
  have c: "fSampleCount (sample_spec\<lparr>fSampleCount := 0, fViewFormat := Stencil8 sample_decls\<rparr>) = 0"
    by code_simp
  from isRenderable_zero_samples [of sample_decls sample_caps "Stencil8 sample_decls"
      "sample_spec\<lparr>fSampleCount := 0, fViewFormat := Stencil8 sample_decls\<rparr>"] a b c
  show ?thesis by blast
qed

text \<open>
  C8. Every texture info that \<open>isStorage\<close> accepts is a valid one with sample count
  1: a texture info with another sample count is rejected, also when it is valid, its
  usage includes \<^verbatim>\<open>StorageBinding\<close> and the table entry of its view format has the
  storage flag.
\<close>

theorem isStorage_single_sampled:
  "(isStorage D caps info \<longrightarrow> (\<exists>spec. info = TextureInfo_Dawn spec \<and> fSampleCount spec = 1)) \<and>
   (fSampleCount spec \<noteq> 1 \<longrightarrow> \<not> isStorage D caps (TextureInfo_Dawn spec))"
  by (cases info) (auto simp: Let_def)

text \<open>
  The sample texture has four samples, storage usage and a view format with the
  storage flag: it is rejected, and accepted once its sample count is 1.
\<close>

theorem isStorage_single_sampled_witness:
  "fSampleCount sample_spec \<noteq> 1 \<and>
   fUsage sample_spec AND StorageBinding sample_decls \<noteq> 0 \<and>
   kStorage_Flag sample_decls AND
     fFlags (getFormatInfo sample_decls sample_caps (getViewFormat sample_decls sample_spec)) \<noteq> 0 \<and>
   \<not> isStorage sample_decls sample_caps (TextureInfo_Dawn sample_spec) \<and>
   isStorage sample_decls sample_caps (TextureInfo_Dawn (sample_spec\<lparr>fSampleCount := 1\<rparr>)) \<and>
   fSampleCount (sample_spec\<lparr>fSampleCount := 1\<rparr>) = 1"
proof -
  have a: "fSampleCount sample_spec \<noteq> 1" by code_simp
  have b: "fUsage sample_spec AND StorageBinding sample_decls \<noteq> 0" by code_simp
  have c: "kStorage_Flag sample_decls AND
     fFlags (getFormatInfo sample_decls sample_caps (getViewFormat sample_decls sample_spec)) \<noteq> 0"
    by code_simp
  have d: "isStorage sample_decls sample_caps (TextureInfo_Dawn (sample_spec\<lparr>fSampleCount := 1\<rparr>))"
    by code_simp
  from isStorage_single_sampled [of sample_decls sample_caps
      "TextureInfo_Dawn (sample_spec\<lparr>fSampleCount := 1\<rparr>)" sample_spec] a b c d
  show ?thesis by auto
qed

subsection \<open>Default texture descriptors\<close>

lemma or_and_absorb: "(a OR b) AND b = (b :: 'a::len word)"
  by (rule bit_word_eqI) (auto simp: bit_simps)

lemma and_subset_iff: "a AND b = b \<longleftrightarrow> b AND NOT a = (0 :: 'a::len word)"
  by (auto simp: bit_eq_iff bit_simps)

lemma usage_bit_iff:
  fixes base ra :: u32
  assumes "ra AND NOT base \<noteq> 0"
  shows "(if r then base OR ra else base) AND ra = ra \<longleftrightarrow> r"
proof (cases r)
  case True
  then show ?thesis by (simp add: or_and_absorb)
next
  case False
  with assms show ?thesis by (simp add: and_subset_iff)
qed

text \<open>
  C2. For every color type, \<open>getDefaultSampledTextureInfo\<close> returns the invalid
  texture info exactly when the lookup of the color type gives \<open>Undefined\<close>.
  Otherwise it returns a descriptor whose format and view format are the format
  looked up, with sample count 1, the mip policy asked for, and the usage
  \<^verbatim>\<open>TextureBinding | CopyDst | CopySrc\<close>, joined with \<^verbatim>\<open>RenderAttachment\<close> when
  \<open>renderable\<close> is \<open>kYes\<close> and not otherwise; where \<^verbatim>\<open>RenderAttachment\<close> has a bit
  outside the other three, it is set in the usage exactly when \<open>renderable\<close> is
  \<open>kYes\<close>.
\<close>

theorem getDefaultSampledTextureInfo_result:
  "(case getDefaultSampledTextureInfo D caps colorType mipmapped protected renderable of
      TextureInfo_empty \<Rightarrow> getFormatFromColorType caps colorType = Undefined D
    | TextureInfo_Dawn info \<Rightarrow>
        getFormatFromColorType caps colorType \<noteq> Undefined D \<and>
        fFormat info = getFormatFromColorType caps colorType \<and>
        fViewFormat info = getFormatFromColorType caps colorType \<and>
        fSampleCount info = 1 \<and>
        fMipmapped info = mipmapped \<and>
        fUsage info =
          (if renderable = Renderable_kYes
           then (TextureBinding D OR CopyDst D OR CopySrc D) OR RenderAttachment D
           else TextureBinding D OR CopyDst D OR CopySrc D) \<and>
        (RenderAttachment D AND NOT (TextureBinding D OR CopyDst D OR CopySrc D) \<noteq> 0 \<longrightarrow>
           (fUsage info AND RenderAttachment D = RenderAttachment D \<longleftrightarrow>
            renderable = Renderable_kYes)))"
proof (cases "getFormatFromColorType caps colorType = Undefined D")
  case True
  then show ?thesis by (simp add: getDefaultSampledTextureInfo_def Let_def)
next
  case False
  have "RenderAttachment D AND NOT (TextureBinding D OR CopyDst D OR CopySrc D) \<noteq> 0 \<Longrightarrow>
    (if renderable = Renderable_kYes
     then (TextureBinding D OR CopyDst D OR CopySrc D) OR RenderAttachment D
     else TextureBinding D OR CopyDst D OR CopySrc D) AND RenderAttachment D = RenderAttachment D
    \<longleftrightarrow> renderable = Renderable_kYes"
    by (rule usage_bit_iff)
  with False show ?thesis
    by (simp add: getDefaultSampledTextureInfo_def Let_def)
qed

text \<open>
  In the sample state \<^verbatim>\<open>kRGB_888x\<close> is looked up as \<^verbatim>\<open>RGBA8Unorm\<close>, and
  \<^verbatim>\<open>kUnknown\<close> as \<open>Undefined\<close>.
\<close>

theorem getDefaultSampledTextureInfo_result_witness:
  "RenderAttachment sample_decls AND
     NOT (TextureBinding sample_decls OR CopyDst sample_decls OR CopySrc sample_decls) \<noteq> 0 \<and>
   getFormatFromColorType sample_caps kRGB_888x_SkColorType = RGBA8Unorm sample_decls \<and>
   RGBA8Unorm sample_decls \<noteq> Undefined sample_decls \<and>
   getDefaultSampledTextureInfo sample_decls sample_caps kRGB_888x_SkColorType Mipmapped_kYes
       Protected_kNo Renderable_kYes =
     TextureInfo_Dawn
       \<lparr>fSampleCount = 1, fMipmapped = Mipmapped_kYes, fFormat = 18, fViewFormat = 18,
        fUsage = 23, fAspect = TextureAspect_other 0\<rparr> \<and>
   (23 :: u32) AND RenderAttachment sample_decls = RenderAttachment sample_decls \<and>
   getFormatFromColorType sample_caps kUnknown_SkColorType = Undefined sample_decls \<and>
   getDefaultSampledTextureInfo sample_decls sample_caps kUnknown_SkColorType Mipmapped_kYes
       Protected_kNo Renderable_kYes = TextureInfo_empty"
proof -
  have a: "RenderAttachment sample_decls AND
     NOT (TextureBinding sample_decls OR CopyDst sample_decls OR CopySrc sample_decls) \<noteq> 0"
    by code_simp
  have b: "getDefaultSampledTextureInfo sample_decls sample_caps kRGB_888x_SkColorType
       Mipmapped_kYes Protected_kNo Renderable_kYes =
     TextureInfo_Dawn
       \<lparr>fSampleCount = 1, fMipmapped = Mipmapped_kYes, fFormat = 18, fViewFormat = 18,
        fUsage = 23, fAspect = TextureAspect_other 0\<rparr>"
    by code_simp
  have c: "getFormatFromColorType sample_caps kRGB_888x_SkColorType = RGBA8Unorm sample_decls"
    by code_simp
  have d: "getDefaultSampledTextureInfo sample_decls sample_caps kUnknown_SkColorType
       Mipmapped_kYes Protected_kNo Renderable_kYes = TextureInfo_empty"
    by code_simp
  have e: "RGBA8Unorm sample_decls \<noteq> Undefined sample_decls" by code_simp
  have f: "getFormatFromColorType sample_caps kUnknown_SkColorType = Undefined sample_decls"
    by code_simp
  from getDefaultSampledTextureInfo_result [where D = sample_decls and caps = sample_caps
      and colorType = kRGB_888x_SkColorType and mipmapped = Mipmapped_kYes
      and protected = Protected_kNo and renderable = Renderable_kYes]
    a b c d e f
  show ?thesis by simp
qed

text \<open>
  C6. For every compression type other than \<^verbatim>\<open>kETC2_RGB8_UNORM\<close> and
  \<^verbatim>\<open>kBC1_RGBA8_UNORM\<close>, \<open>getDefaultCompressedTextureInfo\<close> returns the invalid
  texture info. For these two it returns a descriptor whose format and view format
  are \<^verbatim>\<open>ETC2RGB8Unorm\<close> and \<^verbatim>\<open>BC1RGBAUnorm\<close>, with sample count 1, the mip policy
  asked for and the usage \<^verbatim>\<open>TextureBinding | CopyDst | CopySrc\<close>; this needs the two
  enumerators to differ from \<open>Undefined\<close>.
\<close>

theorem getDefaultCompressedTextureInfo_result:
  "(compression \<noteq> kETC2_RGB8_UNORM \<and> compression \<noteq> kBC1_RGBA8_UNORM \<longrightarrow>
      getDefaultCompressedTextureInfo D caps compression mipmapped protected = TextureInfo_empty) \<and>
   (ETC2RGB8Unorm D \<noteq> Undefined D \<longrightarrow>
      (\<exists>info. getDefaultCompressedTextureInfo D caps kETC2_RGB8_UNORM mipmapped protected =
                 TextureInfo_Dawn info \<and>
              fFormat info = ETC2RGB8Unorm D \<and>
              fViewFormat info = ETC2RGB8Unorm D \<and>
              fSampleCount info = 1 \<and>
              fMipmapped info = mipmapped \<and>
              fUsage info = TextureBinding D OR CopyDst D OR CopySrc D)) \<and>
   (BC1RGBAUnorm D \<noteq> Undefined D \<longrightarrow>
      (\<exists>info. getDefaultCompressedTextureInfo D caps kBC1_RGBA8_UNORM mipmapped protected =
                 TextureInfo_Dawn info \<and>
              fFormat info = BC1RGBAUnorm D \<and>
              fViewFormat info = BC1RGBAUnorm D \<and>
              fSampleCount info = 1 \<and>
              fMipmapped info = mipmapped \<and>
              fUsage info = TextureBinding D OR CopyDst D OR CopySrc D))"
  by (cases compression) (simp_all add: getDefaultCompressedTextureInfo_def Let_def)

theorem getDefaultCompressedTextureInfo_result_witness:
  "SkTextureCompressionType_other 0 \<noteq> kETC2_RGB8_UNORM \<and>
   SkTextureCompressionType_other 0 \<noteq> kBC1_RGBA8_UNORM \<and>
   ETC2RGB8Unorm sample_decls \<noteq> Undefined sample_decls \<and>
   BC1RGBAUnorm sample_decls \<noteq> Undefined sample_decls \<and>
   getDefaultCompressedTextureInfo sample_decls sample_caps (SkTextureCompressionType_other 0)
       Mipmapped_kNo Protected_kNo = TextureInfo_empty \<and>
   getDefaultCompressedTextureInfo sample_decls sample_caps kETC2_RGB8_UNORM
       Mipmapped_kNo Protected_kNo =
     TextureInfo_Dawn
       \<lparr>fSampleCount = 1, fMipmapped = Mipmapped_kNo, fFormat = 58, fViewFormat = 58,
        fUsage = 7, fAspect = TextureAspect_other 0\<rparr> \<and>
   getDefaultCompressedTextureInfo sample_decls sample_caps kBC1_RGBA8_UNORM
       Mipmapped_kNo Protected_kNo =
     TextureInfo_Dawn
       \<lparr>fSampleCount = 1, fMipmapped = Mipmapped_kNo, fFormat = 44, fViewFormat = 44,
        fUsage = 7, fAspect = TextureAspect_other 0\<rparr>"
proof -
  have a: "ETC2RGB8Unorm sample_decls \<noteq> Undefined sample_decls" by code_simp
  have b: "BC1RGBAUnorm sample_decls \<noteq> Undefined sample_decls" by code_simp
  have c: "getDefaultCompressedTextureInfo sample_decls sample_caps kETC2_RGB8_UNORM
       Mipmapped_kNo Protected_kNo =
     TextureInfo_Dawn
       \<lparr>fSampleCount = 1, fMipmapped = Mipmapped_kNo, fFormat = 58, fViewFormat = 58,
        fUsage = 7, fAspect = TextureAspect_other 0\<rparr>" by code_simp
  have d: "getDefaultCompressedTextureInfo sample_decls sample_caps kBC1_RGBA8_UNORM
       Mipmapped_kNo Protected_kNo =
     TextureInfo_Dawn
       \<lparr>fSampleCount = 1, fMipmapped = Mipmapped_kNo, fFormat = 44, fViewFormat = 44,
        fUsage = 7, fAspect = TextureAspect_other 0\<rparr>" by code_simp
  from getDefaultCompressedTextureInfo_result [where compression = "SkTextureCompressionType_other 0"
      and D = sample_decls and caps = sample_caps and mipmapped = Mipmapped_kNo
      and protected = Protected_kNo] a b c d
  show ?thesis by simp
qed

subsection \<open>Pixel writes\<close>

text \<open>
  C10. \<open>supportedWritePixelsColorType\<close> returns its destination color type with
  \<open>False\<close>, for every destination color type, texture info and source color type: the
  answer does not depend on the texture info or on the source color type, and is never
  another color type.
\<close>

theorem supportedWritePixelsColorType_identity:
  "supportedWritePixelsColorType caps dstColorType dstTextureInfo srcColorType = (dstColorType, False) \<and>
   supportedWritePixelsColorType caps dstColorType dstTextureInfo srcColorType =
     supportedWritePixelsColorType caps' dstColorType dstTextureInfo' srcColorType'"
  by (simp add: supportedWritePixelsColorType_def)

subsection \<open>Keys\<close>

text \<open>A word below \<open>2 ^ k\<close> has no bit at position \<open>k\<close> or above.\<close>

lemma bit_below:
  fixes w :: "'a::len word"
  assumes "w < 2 ^ k" and "bit w n"
  shows "n < k"
proof (rule ccontr)
  assume "\<not> n < k"
  from assms(1) have "w AND mask k = w" by (rule less_mask_eq)
  then have "bit w n = bit (w AND mask k) n" by simp
  also have "\<dots> = (bit w n \<and> n < k)"
    by (auto simp: bit_and_iff bit_mask_iff dest: bit_imp_le_length)
  finally show False using assms(2) \<open>\<not> n < k\<close> by auto
qed

lemma pack_renderPassKey:
  fixes f s l g t :: u32
  assumes "f < 2 ^ 16" "s < 2 ^ 15" "l < 2 ^ 1" "g < 2 ^ 16" "t < 2 ^ 16"
  defines "key \<equiv> push_bit 32 (ucast (push_bit 16 f OR push_bit 1 s OR l) :: u64) OR
                    ucast (push_bit 16 g OR t)"
  shows "(ucast (drop_bit 48 key) :: u32) = f"
    and "(ucast (take_bit 15 (drop_bit 33 key)) :: u32) = s"
    and "(ucast (take_bit 1 (drop_bit 32 key)) :: u32) = l"
    and "(ucast (take_bit 16 (drop_bit 16 key)) :: u32) = g"
    and "(ucast (take_bit 16 key) :: u32) = t"
proof -
  note b = bit_below [OF assms(1)] bit_below [OF assms(2)] bit_below [OF assms(3)]
    bit_below [OF assms(4)] bit_below [OF assms(5)]
  show "(ucast (drop_bit 48 key) :: u32) = f"
    unfolding key_def
    apply (rule bit_word_eqI)
    using b
    apply (simp add: bit_simps del: push_bit_Suc One_nat_def)
    apply fastforce
    done
  show "(ucast (take_bit 15 (drop_bit 33 key)) :: u32) = s"
    unfolding key_def
    apply (rule bit_word_eqI)
    using b
    apply (simp add: bit_simps del: push_bit_Suc One_nat_def)
    apply fastforce
    done
  show "(ucast (take_bit 1 (drop_bit 32 key)) :: u32) = l"
    unfolding key_def
    apply (rule bit_word_eqI)
    using b
    apply (simp add: bit_simps del: push_bit_Suc One_nat_def)
    apply fastforce
    done
  show "(ucast (take_bit 16 (drop_bit 16 key)) :: u32) = g"
    unfolding key_def
    apply (rule bit_word_eqI)
    using b
    apply (simp add: bit_simps del: push_bit_Suc One_nat_def)
    apply fastforce
    done
  show "(ucast (take_bit 16 key) :: u32) = t"
    unfolding key_def
    apply (rule bit_word_eqI)
    using b
    apply (simp add: bit_simps del: push_bit_Suc One_nat_def)
    apply fastforce
    done
qed

lemma le_ffff: "(x :: u32) \<le> 0xffff \<Longrightarrow> x < 2 ^ 16"
  by (simp add: word_le_nat_alt word_less_nat_alt)

lemma less_7fff: "(x :: u32) < 0x7fff \<Longrightarrow> x < 2 ^ 15"
  by (simp add: word_less_nat_alt)

lemma loadResolveAttachmentKey_bit: "loadResolveAttachmentKey caps renderPassDesc < 2 ^ 1"
  by (simp add: loadResolveAttachmentKey_def Let_def)

lemma decode_getRenderPassDescKeyForPipeline:
  assumes "renderPassDescKey_asserted D a"
    and "fSampleCount (attachmentInfo D (fDepthStencilAttachment a)) < 2 ^ 16"
  shows "decode_renderPassDescKey (getRenderPassDescKeyForPipeline D caps a) =
         renderPassDescKey_inputs D caps a"
proof -
  from assms(1) have f0: "getViewFormat D (attachmentInfo D (fColorAttachment a)) \<le> 0xffff"
    and g0: "getViewFormat D (attachmentInfo D (fDepthStencilAttachment a)) \<le> 0xffff"
    and s0: "fSampleCount (attachmentInfo D (fColorAttachment a)) < 0x7fff"
    by (simp_all add: renderPassDescKey_asserted_def Let_def)
  from f0 have f: "getViewFormat D (attachmentInfo D (fColorAttachment a)) < 2 ^ 16"
    by (rule le_ffff)
  from g0 have g: "getViewFormat D (attachmentInfo D (fDepthStencilAttachment a)) < 2 ^ 16"
    by (rule le_ffff)
  from s0 have s: "fSampleCount (attachmentInfo D (fColorAttachment a)) < 2 ^ 15"
    by (rule less_7fff)
  note p = pack_renderPassKey [OF f s loadResolveAttachmentKey_bit g assms(2)]
  show ?thesis
    unfolding decode_renderPassDescKey_def renderPassDescKey_inputs_def
      getRenderPassDescKeyForPipeline_def Let_def
    by (simp only: p)
qed

text \<open>
  C4. Where the view formats of the color and the depth-stencil attachment are at most
  \<^verbatim>\<open>0xffff\<close>, the color sample count is below \<^verbatim>\<open>0x7fff\<close> and the depth-stencil
  sample count is below \<open>2 ^ 16\<close>, the key of \<open>getRenderPassDescKeyForPipeline\<close> holds
  the color view format in bits 48 to 63, the color sample count in bits 33 to 47, the
  load-resolve bit in bit 32, the depth-stencil view format in bits 16 to 31 and the
  depth-stencil sample count in bits 0 to 15: reading the key at these positions gives
  the five values back. So two render pass descriptions with these bounds and the same
  key have the same five values.
\<close>

theorem getRenderPassDescKeyForPipeline_injective:
  assumes "renderPassDescKey_asserted D a"
    and "fSampleCount (attachmentInfo D (fDepthStencilAttachment a)) < 2 ^ 16"
  shows "decode_renderPassDescKey (getRenderPassDescKeyForPipeline D caps a) =
           renderPassDescKey_inputs D caps a \<and>
         (renderPassDescKey_asserted D b \<and>
          fSampleCount (attachmentInfo D (fDepthStencilAttachment b)) < 2 ^ 16 \<and>
          getRenderPassDescKeyForPipeline D caps' b = getRenderPassDescKeyForPipeline D caps a \<longrightarrow>
            renderPassDescKey_inputs D caps' b = renderPassDescKey_inputs D caps a)"
proof (intro conjI impI)
  show da: "decode_renderPassDescKey (getRenderPassDescKeyForPipeline D caps a) =
      renderPassDescKey_inputs D caps a"
    using assms by (rule decode_getRenderPassDescKeyForPipeline)
  assume b: "renderPassDescKey_asserted D b \<and>
          fSampleCount (attachmentInfo D (fDepthStencilAttachment b)) < 2 ^ 16 \<and>
          getRenderPassDescKeyForPipeline D caps' b = getRenderPassDescKeyForPipeline D caps a"
  then have "decode_renderPassDescKey (getRenderPassDescKeyForPipeline D caps' b) =
      renderPassDescKey_inputs D caps' b"
    by (intro decode_getRenderPassDescKeyForPipeline) simp_all
  with b da show "renderPassDescKey_inputs D caps' b = renderPassDescKey_inputs D caps a"
    by simp
qed

text \<open>
  The sample render pass and a second one that differs in its write swizzle have the
  key \<^verbatim>\<open>0x0012000900290004\<close>, which reads as (18, 4, 1, 41, 4).
\<close>

theorem getRenderPassDescKeyForPipeline_injective_witness:
  "renderPassDescKey_asserted sample_decls sample_renderPassDesc \<and>
   fSampleCount (attachmentInfo sample_decls (fDepthStencilAttachment sample_renderPassDesc)) < 2 ^ 16 \<and>
   getRenderPassDescKeyForPipeline sample_decls sample_caps sample_renderPassDesc = 0x0012000900290004 \<and>
   decode_renderPassDescKey 0x0012000900290004 = (18, 4, 1, 41, 4) \<and>
   renderPassDescKey_inputs sample_decls sample_caps sample_renderPassDesc = (18, 4, 1, 41, 4) \<and>
   sample_renderPassDesc\<lparr>fWriteSwizzle_asKey := 0\<rparr> \<noteq> sample_renderPassDesc \<and>
   getRenderPassDescKeyForPipeline sample_decls sample_caps
     (sample_renderPassDesc\<lparr>fWriteSwizzle_asKey := 0\<rparr>) = 0x0012000900290004 \<and>
   renderPassDescKey_inputs sample_decls sample_caps
     (sample_renderPassDesc\<lparr>fWriteSwizzle_asKey := 0\<rparr>) = (18, 4, 1, 41, 4)"
proof -
  let ?b = "sample_renderPassDesc\<lparr>fWriteSwizzle_asKey := 0\<rparr>"
  have a1: "renderPassDescKey_asserted sample_decls sample_renderPassDesc" by code_simp
  have a2: "fSampleCount (attachmentInfo sample_decls
      (fDepthStencilAttachment sample_renderPassDesc)) < 2 ^ 16" by code_simp
  have b1: "renderPassDescKey_asserted sample_decls ?b" by code_simp
  have b2: "fSampleCount (attachmentInfo sample_decls (fDepthStencilAttachment ?b)) < 2 ^ 16"
    by code_simp
  have k: "getRenderPassDescKeyForPipeline sample_decls sample_caps sample_renderPassDesc =
      0x0012000900290004" by code_simp
  have k': "getRenderPassDescKeyForPipeline sample_decls sample_caps ?b = 0x0012000900290004"
    by code_simp
  have i: "renderPassDescKey_inputs sample_decls sample_caps sample_renderPassDesc =
      (18, 4, 1, 41, 4)" by code_simp
  have ne: "?b \<noteq> sample_renderPassDesc" by code_simp
  from getRenderPassDescKeyForPipeline_injective [OF a1 a2, of sample_caps ?b sample_caps]
    a1 a2 b1 b2 k k' i ne
  show ?thesis by simp
qed

lemma pack_fourth_word:
  fixes s m u :: u32
  assumes "s < 2 ^ 3" "m < 2 ^ 1" "u < 2 ^ 28"
  defines "w \<equiv> push_bit 0 s OR push_bit 3 m OR push_bit 4 u"
  shows "take_bit 3 w = s"
    and "bit w 3 \<longleftrightarrow> bit m 0"
    and "drop_bit 4 w = u"
proof -
  note b = bit_below [OF assms(1)] bit_below [OF assms(2)] bit_below [OF assms(3)]
  show "take_bit 3 w = s"
    unfolding w_def
    apply (rule bit_word_eqI)
    using b
    apply (simp add: bit_simps)
    apply fastforce
    done
  show "bit w 3 \<longleftrightarrow> bit m 0"
    unfolding w_def using b(1) [of 3] by (auto simp: bit_simps)
  show "drop_bit 4 w = u"
    unfolding w_def
    apply (rule bit_word_eqI)
    using b
    apply (simp add: bit_simps)
    apply fastforce
    done
qed

lemma isMipped_bit: "isMipped spec < 2 ^ 1"
  by (simp add: isMipped_def)

lemma isMipped_bit0: "bit (isMipped spec) 0 \<longleftrightarrow> fMipmapped spec = Mipmapped_kYes"
  by (simp add: isMipped_def)

lemma keyBudget_parts:
  assumes "keyBudget_asserted D spec"
  shows "SamplesToKey D (fSampleCount spec) < 2 ^ 3" and "fUsage spec < 2 ^ 28"
  using assms by (simp_all add: keyBudget_asserted_def)
lemma buildKeyForTexture_Dawn:
  "buildKeyForTexture D caps dimensions (TextureInfo_Dawn spec) type shareable =
     Inr \<lparr>key_type = type, key_shareable = shareable,
          key_data = [fWidth dimensions, fHeight dimensions, getViewFormat D spec,
                      fourthWord D spec]\<rparr>"
  by (simp add: buildKeyForTexture_def fourthWord_def Let_def)

lemma fourthWord_decode:
  assumes "keyBudget_asserted D spec"
  shows "take_bit 3 (fourthWord D spec) = SamplesToKey D (fSampleCount spec)"
    and "bit (fourthWord D spec) 3 \<longleftrightarrow> fMipmapped spec = Mipmapped_kYes"
    and "drop_bit 4 (fourthWord D spec) = fUsage spec"
proof -
  note p = pack_fourth_word [OF keyBudget_parts(1) [OF assms] isMipped_bit
      keyBudget_parts(2) [OF assms]]
  show "take_bit 3 (fourthWord D spec) = SamplesToKey D (fSampleCount spec)"
    unfolding fourthWord_def by (rule p(1))
  show "bit (fourthWord D spec) 3 \<longleftrightarrow> fMipmapped spec = Mipmapped_kYes"
    unfolding fourthWord_def using p(2) isMipped_bit0 [of spec] by blast
  show "drop_bit 4 (fourthWord D spec) = fUsage spec"
    unfolding fourthWord_def by (rule p(3))
qed

lemma Mipmapped_eqI: "(a = Mipmapped_kYes \<longleftrightarrow> b = Mipmapped_kYes) \<Longrightarrow> a = b"
  by (cases a; cases b) simp_all

lemma fourthWord_inj:
  assumes "keyBudget_asserted D a" "keyBudget_asserted D b" "fourthWord D a = fourthWord D b"
  shows "SamplesToKey D (fSampleCount a) = SamplesToKey D (fSampleCount b) \<and>
         fMipmapped a = fMipmapped b \<and> fUsage a = fUsage b"
proof -
  from fourthWord_decode(1) [OF assms(1)] fourthWord_decode(1) [OF assms(2)] assms(3)
  have s: "SamplesToKey D (fSampleCount a) = SamplesToKey D (fSampleCount b)" by simp
  from fourthWord_decode(2) [OF assms(1)] fourthWord_decode(2) [OF assms(2)] assms(3)
  have m: "fMipmapped a = fMipmapped b" by (intro Mipmapped_eqI) simp
  from fourthWord_decode(3) [OF assms(1)] fourthWord_decode(3) [OF assms(2)] assms(3)
  have u: "fUsage a = fUsage b" by simp
  from s m u show ?thesis by simp
qed

text \<open>
  C1. Where \<open>samplesKey\<close> is below \<open>2 ^ 3\<close>, the mip flag is one bit and the usage is
  below \<open>2 ^ 28\<close>, \<open>buildKeyForTexture\<close> on a valid texture info produces a key of
  four words: the width, the height, the view format, and a fourth word with
  \<open>samplesKey\<close> in bits 0 to 2, the mip flag in bit 3 and the usage in bits 4 to 31,
  each of which is read back from the word. So two calls within the budget that
  produce the same key have the same dimensions, view format, \<open>samplesKey\<close>, mip
  policy and usage; and the same sample count, where \<^verbatim>\<open>SamplesToKey\<close> sends different
  sample counts within the budget to different keys.
\<close>

theorem buildKeyForTexture_reversible:
  assumes "keyBudget_asserted D a" and "keyBudget_asserted D b"
  shows
    "(\<exists>key. buildKeyForTexture D caps dims (TextureInfo_Dawn a) type shareable = Inr key \<and>
        length (key_data key) = 4 \<and>
        key_data key ! 0 = fWidth dims \<and>
        key_data key ! 1 = fHeight dims \<and>
        key_data key ! 2 = getViewFormat D a \<and>
        take_bit 3 (key_data key ! 3) = SamplesToKey D (fSampleCount a) \<and>
        (bit (key_data key ! 3) 3 \<longleftrightarrow> fMipmapped a = Mipmapped_kYes) \<and>
        drop_bit 4 (key_data key ! 3) = fUsage a) \<and>
     (buildKeyForTexture D caps dims (TextureInfo_Dawn a) type shareable =
        buildKeyForTexture D caps' dims' (TextureInfo_Dawn b) type' shareable' \<longrightarrow>
      dims = dims' \<and>
      getViewFormat D a = getViewFormat D b \<and>
      SamplesToKey D (fSampleCount a) = SamplesToKey D (fSampleCount b) \<and>
      fMipmapped a = fMipmapped b \<and>
      fUsage a = fUsage b \<and>
      (inj_on (SamplesToKey D) {n. SamplesToKey D n < 2 ^ 3} \<longrightarrow>
         fSampleCount a = fSampleCount b))"
proof (intro conjI impI)
  show "\<exists>key. buildKeyForTexture D caps dims (TextureInfo_Dawn a) type shareable = Inr key \<and>
        length (key_data key) = 4 \<and>
        key_data key ! 0 = fWidth dims \<and>
        key_data key ! 1 = fHeight dims \<and>
        key_data key ! 2 = getViewFormat D a \<and>
        take_bit 3 (key_data key ! 3) = SamplesToKey D (fSampleCount a) \<and>
        (bit (key_data key ! 3) 3 \<longleftrightarrow> fMipmapped a = Mipmapped_kYes) \<and>
        drop_bit 4 (key_data key ! 3) = fUsage a"
    using fourthWord_decode [OF assms(1)] by (simp add: buildKeyForTexture_Dawn)
next
  assume eq: "buildKeyForTexture D caps dims (TextureInfo_Dawn a) type shareable =
        buildKeyForTexture D caps' dims' (TextureInfo_Dawn b) type' shareable'"
  then have w: "fWidth dims = fWidth dims'" "fHeight dims = fHeight dims'"
    and v: "getViewFormat D a = getViewFormat D b"
    and f: "fourthWord D a = fourthWord D b"
    by (simp_all add: buildKeyForTexture_Dawn)
  from w show "dims = dims'" by simp
  from v show "getViewFormat D a = getViewFormat D b" .
  from fourthWord_inj [OF assms f]
  show s: "SamplesToKey D (fSampleCount a) = SamplesToKey D (fSampleCount b)"
    and "fMipmapped a = fMipmapped b" and "fUsage a = fUsage b"
    by simp_all
  assume "inj_on (SamplesToKey D) {n. SamplesToKey D n < 2 ^ 3}"
  moreover from keyBudget_parts(1) [OF assms(1)] keyBudget_parts(1) [OF assms(2)]
  have "fSampleCount a \<in> {n. SamplesToKey D n < 2 ^ 3}"
    "fSampleCount b \<in> {n. SamplesToKey D n < 2 ^ 3}"
    by simp_all
  ultimately show "fSampleCount a = fSampleCount b" using s by (auto dest: inj_onD)
qed

lemma sample_SamplesToKey:
  "SamplesToKey sample_decls n =
     (if n = 1 then 0 else if n = 2 then 1 else if n = 4 then 2
      else if n = 8 then 3 else if n = 16 then 4 else 8)"
  by (simp add: sample_decls_def)

lemma sample_SamplesToKey_inj:
  "inj_on (SamplesToKey sample_decls) {n. SamplesToKey sample_decls n < 2 ^ 3}"
  by (auto simp: inj_on_def sample_SamplesToKey split: if_splits)

text \<open>
  The sample texture and a second one that differs in its format and aspect, not in
  its view format, have the key words 640, 480, 18 and 394.
\<close>

theorem buildKeyForTexture_reversible_witness:
  "keyBudget_asserted sample_decls sample_spec \<and>
   keyBudget_asserted sample_decls (sample_spec\<lparr>fFormat := 23, fAspect := Plane0Only\<rparr>) \<and>
   sample_spec \<noteq> sample_spec\<lparr>fFormat := 23, fAspect := Plane0Only\<rparr> \<and>
   inj_on (SamplesToKey sample_decls) {n. SamplesToKey sample_decls n < 2 ^ 3} \<and>
   buildKeyForTexture sample_decls sample_caps \<lparr>fWidth = 640, fHeight = 480\<rparr>
       (TextureInfo_Dawn sample_spec) 3 Shareable_kNo =
     Inr \<lparr>key_type = 3, key_shareable = Shareable_kNo, key_data = [640, 480, 18, 394]\<rparr> \<and>
   buildKeyForTexture sample_decls sample_caps \<lparr>fWidth = 640, fHeight = 480\<rparr>
       (TextureInfo_Dawn (sample_spec\<lparr>fFormat := 23, fAspect := Plane0Only\<rparr>)) 3 Shareable_kNo =
     Inr \<lparr>key_type = 3, key_shareable = Shareable_kNo, key_data = [640, 480, 18, 394]\<rparr> \<and>
   take_bit 3 (394 :: u32) = SamplesToKey sample_decls (fSampleCount sample_spec) \<and>
   bit (394 :: u32) 3 \<and>
   drop_bit 4 (394 :: u32) = fUsage sample_spec \<and>
   fSampleCount sample_spec =
     fSampleCount (sample_spec\<lparr>fFormat := 23, fAspect := Plane0Only\<rparr>)"
proof -
  let ?b = "sample_spec\<lparr>fFormat := 23, fAspect := Plane0Only\<rparr>"
  let ?d = "\<lparr>fWidth = 640, fHeight = 480\<rparr>"
  have a: "keyBudget_asserted sample_decls sample_spec" by code_simp
  have b: "keyBudget_asserted sample_decls ?b" by code_simp
  have ne: "sample_spec \<noteq> ?b" by code_simp
  have ka: "buildKeyForTexture sample_decls sample_caps ?d (TextureInfo_Dawn sample_spec) 3
      Shareable_kNo =
     Inr \<lparr>key_type = 3, key_shareable = Shareable_kNo, key_data = [640, 480, 18, 394]\<rparr>"
    by code_simp
  have kb: "buildKeyForTexture sample_decls sample_caps ?d (TextureInfo_Dawn ?b) 3
      Shareable_kNo =
     Inr \<lparr>key_type = 3, key_shareable = Shareable_kNo, key_data = [640, 480, 18, 394]\<rparr>"
    by code_simp
  have m: "fMipmapped sample_spec = Mipmapped_kYes" by code_simp
  from buildKeyForTexture_reversible [OF a b, of sample_caps ?d 3 Shareable_kNo
      sample_caps ?d 3 Shareable_kNo]
    a b ne ka kb m sample_SamplesToKey_inj
  show ?thesis by simp
qed

subsection \<open>The operations leave the state as it is\<close>

text \<open>
  Each computation, run on a state, returns the value of its function on that state
  and the state itself.
\<close>

lemma run_this_member [simp]: "run_state (this_member field) caps = (field caps, caps)"
  by (simp add: this_member_def)

lemma run_getFormatInfo_op [simp]:
  "run_state (getFormatInfo_op D format) caps = (getFormatInfo D caps format, caps)"
  by (simp add: getFormatInfo_op_def getFormatInfo_def)

lemma run_getFormatFromColorType_op [simp]:
  "run_state (getFormatFromColorType_op colorType) caps =
     (getFormatFromColorType caps colorType, caps)"
  by (simp add: getFormatFromColorType_op_def getFormatFromColorType_def)

lemma run_resolveTextureLoadOp_op [simp]:
  "run_state resolveTextureLoadOp_op caps = (resolveTextureLoadOp caps, caps)"
  by (simp add: resolveTextureLoadOp_op_def resolveTextureLoadOp_def)

lemma run_isTexturable_op [simp]:
  "run_state (isTexturable_op D format) caps = (isTexturable D caps format, caps)"
  by (simp add: isTexturable_op_def isTexturable_def)


lemma run_maxRenderTargetSampleCount_op [simp]:
  "run_state (maxRenderTargetSampleCount_op D format) caps =
     (maxRenderTargetSampleCount D caps format, caps)"
  by (simp add: maxRenderTargetSampleCount_op_def maxRenderTargetSampleCount_def)

lemma run_isRenderable_format_op [simp]:
  "run_state (isRenderable_format_op D format sampleCount) caps =
     (isRenderable_format D caps format sampleCount, caps)"
  by (simp add: isRenderable_format_op_def isRenderable_format_def)

lemma run_isRenderable_op:
  "run_state (isRenderable_op D info) caps = (isRenderable D caps info, caps)"
  by (cases info) simp_all

lemma run_isStorage_op:
  "run_state (isStorage_op D info) caps = (isStorage D caps info, caps)"
  by (cases info) simp_all

lemma run_getColorTypeInfo_op:
  "run_state (getColorTypeInfo_op D colorType info) caps =
     (getColorTypeInfo D caps colorType info, caps)"
  by (simp add: getColorTypeInfo_op_def getColorTypeInfo_def Let_def split: sum.splits)

lemma run_supportsWritePixels_op:
  "run_state (supportsWritePixels_op D info) caps = (supportsWritePixels D caps info, caps)"
  by (simp add: supportsWritePixels_op_def supportsWritePixels_def split: sum.splits)

lemma run_supportsReadPixels_op:
  "run_state (supportsReadPixels_op D info) caps = (supportsReadPixels D caps info, caps)"
  by (simp add: supportsReadPixels_op_def supportsReadPixels_def split: sum.splits)

lemma run_supportedWritePixelsColorType_op:
  "run_state (supportedWritePixelsColorType_op dst info src) caps =
     (supportedWritePixelsColorType caps dst info src, caps)"
  by (simp add: supportedWritePixelsColorType_op_def supportedWritePixelsColorType_def)

lemma run_supportedReadPixelsColorType_op:
  "run_state (supportedReadPixelsColorType_op D src info dst) caps =
     (supportedReadPixelsColorType D caps src info dst, caps)"
  by (simp add: supportedReadPixelsColorType_op_def supportedReadPixelsColorType_def Let_def
      split: option.splits)

lemma run_state_if:
  "run_state (if c then a else b) s = (if c then run_state a s else run_state b s)"
  by simp

lemma run_onIsTexturable_op:
  "run_state (onIsTexturable_op D info) caps = (onIsTexturable D caps info, caps)"
proof (cases info)
  case TextureInfo_empty
  then show ?thesis by simp
next
  case (TextureInfo_Dawn spec)
  have t: "run_state (isTexturable_op D (getViewFormat D spec)) caps =
      (isTexturable D caps (getViewFormat D spec), caps)" by simp
  show ?thesis
    unfolding TextureInfo_Dawn onIsTexturable_op.simps onIsTexturable.simps run_state_if t
      run_state_return
    by (simp only: if_distrib [of "\<lambda>b. (b, caps)", symmetric])
qed

lemma run_getDefaultSampledTextureInfo_op:
  "run_state (getDefaultSampledTextureInfo_op D colorType mipmapped protected renderable) caps =
     (getDefaultSampledTextureInfo D caps colorType mipmapped protected renderable, caps)"
  by (simp add: getDefaultSampledTextureInfo_op_def getDefaultSampledTextureInfo_def Let_def)

lemma run_getTextureInfoForSampledCopy_op:
  "run_state (getTextureInfoForSampledCopy_op D info mipmapped) caps =
     (getTextureInfoForSampledCopy D caps info mipmapped, caps)"
  by (simp add: getTextureInfoForSampledCopy_op_def getTextureInfoForSampledCopy_def
      split: option.splits)

lemma run_getDefaultCompressedTextureInfo_op:
  "run_state (getDefaultCompressedTextureInfo_op D compression mipmapped protected) caps =
     (getDefaultCompressedTextureInfo D caps compression mipmapped protected, caps)"
  by (simp add: getDefaultCompressedTextureInfo_op_def getDefaultCompressedTextureInfo_def Let_def)

lemma run_getDefaultMSAATextureInfo_op:
  "run_state (getDefaultMSAATextureInfo_op D info discardable) caps =
     (getDefaultMSAATextureInfo D caps info discardable, caps)"
  by (simp add: getDefaultMSAATextureInfo_op_def getDefaultMSAATextureInfo_def Let_def
      split: sum.splits)

lemma run_getDefaultDepthStencilTextureInfo_op:
  "run_state (getDefaultDepthStencilTextureInfo_op D depthStencilType sampleCount protected) caps =
     (getDefaultDepthStencilTextureInfo D caps depthStencilType sampleCount protected, caps)"
  by (simp add: getDefaultDepthStencilTextureInfo_op_def getDefaultDepthStencilTextureInfo_def
      Let_def)

lemma run_getDefaultStorageTextureInfo_op:
  "run_state (getDefaultStorageTextureInfo_op D colorType) caps =
     (getDefaultStorageTextureInfo D caps colorType, caps)"
  by (simp add: getDefaultStorageTextureInfo_op_def getDefaultStorageTextureInfo_def Let_def)

lemma run_getRenderPassDescKeyForPipeline_op [simp]:
  "run_state (getRenderPassDescKeyForPipeline_op D renderPassDesc) caps =
     (getRenderPassDescKeyForPipeline D caps renderPassDesc, caps)"
  by (simp add: getRenderPassDescKeyForPipeline_op_def getRenderPassDescKeyForPipeline_def
      loadResolveAttachmentKey_def Let_def del: push_bit_Suc One_nat_def)

lemma run_makeGraphicsPipelineKey_op:
  "run_state (makeGraphicsPipelineKey_op D pipelineDesc renderPassDesc) caps =
     (makeGraphicsPipelineKey D caps pipelineDesc renderPassDesc, caps)"
  by (simp add: makeGraphicsPipelineKey_op_def makeGraphicsPipelineKey_def Let_def)

lemma run_makeComputePipelineKey_op:
  "run_state (makeComputePipelineKey_op pipelineDesc) caps =
     (makeComputePipelineKey caps pipelineDesc, caps)"
  by (simp add: makeComputePipelineKey_op_def makeComputePipelineKey_def)

lemma run_buildKeyForTexture_op:
  "run_state (buildKeyForTexture_op D dimensions info type shareable) caps =
     (buildKeyForTexture D caps dimensions info type shareable, caps)"
  by (simp add: buildKeyForTexture_op_def buildKeyForTexture_def Let_def split: sum.splits)

lemma run_answering:
  "run_state operation caps = (result, caps) \<Longrightarrow>
     run_state (answering A operation) caps = (A result, caps)"
  by (simp add: answering_def)

lemma run_invoke: "run_state (invoke D q) caps = (answer_of D caps q, caps)"
proof (cases q)
  case (Q_onIsTexturable info)
  then show ?thesis by (simp add: run_answering run_onIsTexturable_op)
next
  case (Q_isTexturable format)
  then show ?thesis by (simp add: run_answering)
next
  case (Q_isRenderable info)
  then show ?thesis by (simp add: run_answering run_isRenderable_op)
next
  case (Q_isRenderable_format format sampleCount)
  then show ?thesis by (simp add: run_answering)
next
  case (Q_isStorage info)
  then show ?thesis by (simp add: run_answering run_isStorage_op)
next
  case (Q_maxRenderTargetSampleCount format)
  then show ?thesis by (simp add: run_answering)
next
  case (Q_getColorTypeInfo colorType info)
  then show ?thesis by (simp add: run_answering run_getColorTypeInfo_op)
next
  case (Q_getDefaultSampledTextureInfo colorType mipmapped protected renderable)
  then show ?thesis by (simp add: run_answering run_getDefaultSampledTextureInfo_op)
next
  case (Q_getTextureInfoForSampledCopy info mipmapped)
  then show ?thesis by (simp add: run_answering run_getTextureInfoForSampledCopy_op)
next
  case (Q_getDefaultCompressedTextureInfo compression mipmapped protected)
  then show ?thesis by (simp add: run_answering run_getDefaultCompressedTextureInfo_op)
next
  case (Q_getDefaultMSAATextureInfo info discardable)
  then show ?thesis by (simp add: run_answering run_getDefaultMSAATextureInfo_op)
next
  case (Q_getDefaultDepthStencilTextureInfo depthStencilType sampleCount protected)
  then show ?thesis by (simp add: run_answering run_getDefaultDepthStencilTextureInfo_op)
next
  case (Q_getDefaultStorageTextureInfo colorType)
  then show ?thesis by (simp add: run_answering run_getDefaultStorageTextureInfo_op)
next
  case (Q_supportsWritePixels info)
  then show ?thesis by (simp add: run_answering run_supportsWritePixels_op)
next
  case (Q_supportsReadPixels info)
  then show ?thesis by (simp add: run_answering run_supportsReadPixels_op)
next
  case (Q_supportedWritePixelsColorType dstColorType info srcColorType)
  then show ?thesis by (simp add: run_answering run_supportedWritePixelsColorType_op)
next
  case (Q_supportedReadPixelsColorType srcColorType info dstColorType)
  then show ?thesis by (simp add: run_answering run_supportedReadPixelsColorType_op)
next
  case (Q_getRenderPassDescKeyForPipeline renderPassDesc)
  then show ?thesis by (simp add: run_answering)
next
  case (Q_makeGraphicsPipelineKey pipelineDesc renderPassDesc)
  then show ?thesis by (simp add: run_answering run_makeGraphicsPipelineKey_op)
next
  case (Q_makeComputePipelineKey pipelineDesc)
  then show ?thesis by (simp add: run_answering run_makeComputePipelineKey_op)
next
  case (Q_buildKeyForTexture dimensions info type shareable)
  then show ?thesis by (simp add: run_answering run_buildKeyForTexture_op)
qed

lemma run_invoke_all:
  "run_state (invoke_all D qs) caps = (map (answer_of D caps) qs, caps)"
  by (induction qs) (simp_all add: run_invoke)

text \<open>
  C7. Every query, descriptor factory and key builder leaves the capability state
  unchanged and answers as its function does on that state: run on a state, a call
  returns that state, and a sequence of calls returns the state it started from with
  the answers of the calls on it. So after the constructor has returned, the format
  table, the color-type-to-format table, the limits and the feature flags stay as the
  constructor wrote them, whatever operations are called.
\<close>

theorem operations_leave_state:
  "run_state (invoke D q) caps = (answer_of D caps q, caps) \<and>
   run_state (invoke_all D qs) caps = (map (answer_of D caps) qs, caps) \<and>
   snd (run_state (invoke_all D qs)
          (DawnCaps_new D finishInitialization base backendContext options)) =
     DawnCaps_new D finishInitialization base backendContext options"
  by (simp add: run_invoke run_invoke_all)

text \<open>
  The constructor writes the sample state: the format table and the texture size
  limit differ from those of the base it starts from. Six calls on that state return
  it, the last giving the answer of the first.
\<close>

theorem operations_leave_state_witness:
  "fFormatTable sample_base = [] \<and>
   length (fFormatTable sample_caps) = 18 \<and>
   fMaxTextureSize sample_base = 0 \<and>
   fMaxTextureSize sample_caps = 8192 \<and>
   run_state (invoke_all sample_decls sample_queries) sample_caps =
     ([A_bool False,
       A_u32 8,
       A_TextureInfo (TextureInfo_Dawn
         \<lparr>fSampleCount = 1, fMipmapped = Mipmapped_kYes, fFormat = 18, fViewFormat = 18,
          fUsage = 23, fAspect = TextureAspect_other 0\<rparr>),
       A_u64 0x0012000900290004,
       A_ResourceKey
         \<lparr>key_type = 3, key_shareable = Shareable_kNo, key_data = [640, 480, 18, 394]\<rparr>,
       A_bool False],
      sample_caps)"
proof -
  have a: "map (answer_of sample_decls sample_caps) sample_queries =
     [A_bool False,
       A_u32 8,
       A_TextureInfo (TextureInfo_Dawn
         \<lparr>fSampleCount = 1, fMipmapped = Mipmapped_kYes, fFormat = 18, fViewFormat = 18,
          fUsage = 23, fAspect = TextureAspect_other 0\<rparr>),
       A_u64 0x0012000900290004,
       A_ResourceKey
         \<lparr>key_type = 3, key_shareable = Shareable_kNo, key_data = [640, 480, 18, 394]\<rparr>,
       A_bool False]"
    by code_simp
  have b: "fFormatTable sample_base = []" "length (fFormatTable sample_caps) = 18"
    "fMaxTextureSize sample_base = 0" "fMaxTextureSize sample_caps = 8192"
    by code_simp+
  note t = operations_leave_state [where D = sample_decls and q = "hd sample_queries"
      and caps = sample_caps and qs = sample_queries
      and finishInitialization = "\<lambda>options caps. caps\<lparr>fDefaultMSAASamples := options\<rparr>"
      and base = sample_base and backendContext = "\<lparr>fDevice = sample_device, fTick = True\<rparr>"
      and options = 4]
  from t [THEN conjunct2, THEN conjunct1] a b
  show ?thesis by simp
qed

end
